theory Spec2Isabelle
  imports Complex_Main
begin

section \<open>Errors and object attributes\<close>

text \<open>
  Every raise of the modelled Python is a value: a failed \<^verbatim>\<open>assert\<close>, the read of an
  attribute that was never assigned, an index out of range, a missing dictionary key, and
  the shape mismatch a tensor operation reports at call time.
\<close>

datatype error = AssertionError | AttributeError | IndexError | KeyError | ShapeError

text \<open>
  An attribute of \<^verbatim>\<open>self\<close> is either never assigned (reading it raises AttributeError)
  or holds a value; Python's \<^verbatim>\<open>None\<close> is the \<open>None\<close> of an option inside \<open>Assigned\<close>.
\<close>

datatype 'a attr = Unassigned | Assigned 'a

section \<open>GNOBlock (neuralop/layers/gno\_block.py)\<close>

text \<open>
  The sub-modules GNOBlock builds (NeighborSearch, LinearChannelMLP, IntegralTransform)
  are recorded with the arguments they are built from. A user-supplied kernel module is
  known to the constructor by the two attributes it reads.
\<close>

record channel_mlp_module =
  mlp_in_channels :: int
  mlp_out_channels :: int

datatype kernel_net = UserChannelMLP channel_mlp_module | LinearChannelMLP "int list"

record neighbor_search =
  use_open3d :: bool

record integral_transform =
  it_channel_mlp :: kernel_net
  it_transform_type :: string
  it_use_torch_scatter :: bool

record gno_block =
  blk_in_channels :: int
  blk_out_channels :: int
  blk_coord_dim :: int
  blk_radius :: real
  blk_n_layers :: "int option"
  blk_neighbor_search :: neighbor_search
  blk_channel_mlp :: kernel_net
  blk_integral_transform :: integral_transform

text \<open>The local variable \<^verbatim>\<open>kernel_in_dim\<close> of \<^verbatim>\<open>GNOBlock.__init__\<close>.\<close>

definition gno_block_kernel_in_dim :: "int \<Rightarrow> int \<Rightarrow> string \<Rightarrow> int" where
  "gno_block_kernel_in_dim coord_dim in_channels transform_type =
     (if transform_type = ''nonlinear'' \<or> transform_type = ''nonlinear_kernelonly''
      then coord_dim * 2 + in_channels
      else coord_dim * 2)"

text \<open>
  \<^verbatim>\<open>if channel_mlp:\<close> with its two asserts. The result is the value of
  \<^verbatim>\<open>self.channel_mlp\<close> after the statement.
\<close>

definition take_channel_mlp ::
  "channel_mlp_module option \<Rightarrow> int \<Rightarrow> int \<Rightarrow> error + kernel_net attr" where
  "take_channel_mlp channel_mlp kernel_in_dim out_channels =
     (case channel_mlp of
        None \<Rightarrow> Inr Unassigned
      | Some m \<Rightarrow>
          if mlp_in_channels m = kernel_in_dim
          then (if mlp_out_channels m = out_channels
                then Inr (Assigned (UserChannelMLP m))
                else Inl AssertionError)
          else Inl AssertionError)"

text \<open>
  \<^verbatim>\<open>if channel_mlp_layers:\<close> is true of a non-empty list only. The first width is made
  the kernel input width, the last one the output width, and the kernel is rebuilt from
  the list whatever \<^verbatim>\<open>channel_mlp\<close> was.
\<close>

definition take_channel_mlp_layers ::
  "int list option \<Rightarrow> int \<Rightarrow> int \<Rightarrow> kernel_net attr \<Rightarrow> kernel_net attr" where
  "take_channel_mlp_layers channel_mlp_layers kernel_in_dim out_channels current =
     (case channel_mlp_layers of
        None \<Rightarrow> current
      | Some [] \<Rightarrow> current
      | Some (w # ws) \<Rightarrow>
          (let l1 = (if w = kernel_in_dim then w # ws else kernel_in_dim # w # ws);
               l2 = (if last l1 = out_channels then l1 else l1 @ [out_channels])
           in Assigned (LinearChannelMLP l2)))"

definition GNOBlock_init ::
  "int \<Rightarrow> int \<Rightarrow> int \<Rightarrow> real \<Rightarrow> int option \<Rightarrow> channel_mlp_module option \<Rightarrow>
   int list option \<Rightarrow> string \<Rightarrow> bool \<Rightarrow> bool \<Rightarrow> error + gno_block" where
  "GNOBlock_init in_channels out_channels coord_dim radius n_layers channel_mlp
     channel_mlp_layers transform_type use_open3d_neighbor_search use_torch_scatter_reduce =
     (if use_open3d_neighbor_search \<and> coord_dim \<noteq> 3 then Inl AssertionError
      else
        let kernel_in_dim = gno_block_kernel_in_dim coord_dim in_channels transform_type in
        case take_channel_mlp channel_mlp kernel_in_dim out_channels of
          Inl e \<Rightarrow> Inl e
        | Inr a \<Rightarrow>
            (case take_channel_mlp_layers channel_mlp_layers kernel_in_dim out_channels a of
               Unassigned \<Rightarrow> Inl AttributeError
             | Assigned k \<Rightarrow>
                 Inr \<lparr> blk_in_channels = in_channels,
                       blk_out_channels = out_channels,
                       blk_coord_dim = coord_dim,
                       blk_radius = radius,
                       blk_n_layers = n_layers,
                       blk_neighbor_search = \<lparr> use_open3d = use_open3d_neighbor_search \<rparr>,
                       blk_channel_mlp = k,
                       blk_integral_transform =
                         \<lparr> it_channel_mlp = k,
                           it_transform_type = transform_type,
                           it_use_torch_scatter = use_torch_scatter_reduce \<rparr> \<rparr>))"

text \<open>The input width of a kernel network: its first layer's.\<close>

fun kernel_in_channels :: "kernel_net \<Rightarrow> int option" where
  "kernel_in_channels (UserChannelMLP m) = Some (mlp_in_channels m)"
| "kernel_in_channels (LinearChannelMLP []) = None"
| "kernel_in_channels (LinearChannelMLP (w # ws)) = Some w"

text \<open>
  \<^verbatim>\<open>GNOBlock.forward(y, x, f_y=None, weights=None)\<close>. The neighbour search and the
  integral transform are modules defined outside this file's sources; their calls are the
  parameters \<open>search\<close> and \<open>transform\<close>. The transform is called with the keywords
  \<^verbatim>\<open>y, x, neighbors, f_y\<close>, so its own \<^verbatim>\<open>weights\<close> keyword keeps its default
  \<^verbatim>\<open>None\<close>.
\<close>

definition GNOBlock_forward ::
  "(neighbor_search \<Rightarrow> 'p \<Rightarrow> 'p \<Rightarrow> real \<Rightarrow> 'n) \<Rightarrow>
   (integral_transform \<Rightarrow> 'p \<Rightarrow> 'p \<Rightarrow> 'n \<Rightarrow> 'f option \<Rightarrow> 'w option \<Rightarrow> 'r) \<Rightarrow>
   gno_block \<Rightarrow> 'p \<Rightarrow> 'p \<Rightarrow> 'f option \<Rightarrow> 'w option \<Rightarrow> 'r" where
  "GNOBlock_forward search transform self y x f_y weights =
     (let neighbors_dict = search (blk_neighbor_search self) y x (blk_radius self);
          out_features = transform (blk_integral_transform self) y x neighbors_dict f_y None
      in out_features)"

section \<open>FNOGNO (neuralop/models/fnogno.py): construction\<close>

text \<open>
  Python passes a list by reference, and the default of
  \<^verbatim>\<open>gno_channel_mixing_hidden_layers\<close> is one list object made when the module is
  loaded. The heap maps a list object to its contents; \<open>default_hidden_layers\<close> is the
  default's object.
\<close>

type_synonym ref = nat

type_synonym heap = "ref \<Rightarrow> int list"

definition default_hidden_layers :: ref where
  "default_hidden_layers = 0"

definition module_heap :: heap where
  "module_heap = (\<lambda>_. [])(default_hidden_layers := [512, 256])"

text \<open>
  The keyword arguments \<^verbatim>\<open>FNOGNO.__init__\<close> computes with. The remaining ones are
  handed to the FNO constructor unchanged. \<open>gno_channel_mixing_hidden_layers = None\<close>
  stands for the argument left out.
\<close>

record fnogno_args =
  in_channels :: int
  out_channels :: int
  projection_channels :: int
  gno_coord_dim :: int
  gno_coord_embed_dim :: "int option"
  gno_radius :: real
  gno_channel_mixing_hidden_layers :: "ref option"
  gno_transform_type :: string
  gno_use_open3d :: bool
  gno_batched :: bool
  fno_n_modes :: "int list"
  fno_hidden_channels :: int
  fno_lifting_channels :: int
  fno_n_layers :: int
  fno_norm :: "string option"
  fno_ada_in_features :: "int option"
  fno_ada_in_dim :: int
  fno_domain_padding :: "real option"
  fno_domain_padding_mode :: string

definition fnogno_defaults :: "int \<Rightarrow> int \<Rightarrow> fnogno_args" where
  "fnogno_defaults ic oc =
     \<lparr> in_channels = ic, out_channels = oc, projection_channels = 256,
       gno_coord_dim = 3, gno_coord_embed_dim = None, gno_radius = 33 / 1000,
       gno_channel_mixing_hidden_layers = None, gno_transform_type = ''linear'',
       gno_use_open3d = False, gno_batched = False, fno_n_modes = [16, 16, 16],
       fno_hidden_channels = 64, fno_lifting_channels = 256, fno_n_layers = 4,
       fno_norm = None, fno_ada_in_features = None, fno_ada_in_dim = 1,
       fno_domain_padding = None, fno_domain_padding_mode = ''one-sided'' \<rparr>"

text \<open>What the two \<^verbatim>\<open>print\<close> statements write, with the numbers they interpolate.\<close>

datatype warning = Open3dExpects3d int | FnoGnoDimMismatch int int

record fno_module =
  fno_in_channels :: int
  fno_hidden :: int
  fno_out_channels :: int
  fno_lifting :: int
  fno_projection_channels :: int
  fno_modes :: "int list"
  fno_layers :: int
  fno_norm_layer :: "string option"
  fno_ada_in :: "int option"
  fno_padding :: "real option"
  fno_padding_mode :: string

record gno_module =
  gno_layers_object :: ref
  gno_layers :: "int list"
  gno_module_transform_type :: string

record channel_mixing_module =
  cm_in_channels :: int
  cm_out_channels :: int
  cm_hidden_channels :: int
  cm_n_layers :: int
  cm_n_dim :: int

record fnogno =
  self_gno_coord_dim :: int
  self_in_coord_dim :: int
  self_in_coord_dim_forward_order :: "int list"
  self_in_coord_dim_reverse_order :: "int list"
  self_gno_batched :: bool
  self_adain_pos_embed :: "int option attr"
  self_ada_in_dim :: "int option"
  self_fno :: fno_module
  self_nb_search_out :: neighbor_search
  self_gno_radius :: real
  self_pos_embed :: "int option"
  self_gno_coord_dim_embed :: int
  self_gno :: gno_module
  self_projection :: channel_mixing_module
  printed :: "warning list"

text \<open>The local variable \<^verbatim>\<open>kernel_in_dim\<close> of \<^verbatim>\<open>FNOGNO.__init__\<close> (lines 245-246).\<close>

definition fnogno_kernel_in_dim :: "int \<Rightarrow> int \<Rightarrow> string \<Rightarrow> int" where
  "fnogno_kernel_in_dim coord_dim_embed hidden_channels transform_type =
     2 * coord_dim_embed + (if transform_type \<noteq> ''linear'' then hidden_channels else 0)"

text \<open>\<^verbatim>\<open>self.gno_coord_dim_embed\<close> (lines 238-243).\<close>

definition fnogno_coord_dim_embed :: "fnogno_args \<Rightarrow> int" where
  "fnogno_coord_dim_embed a =
     (case gno_coord_embed_dim a of
        Some e \<Rightarrow> gno_coord_dim a * e
      | None \<Rightarrow> gno_coord_dim a)"

text \<open>The list object the parameter \<^verbatim>\<open>gno_channel_mixing_hidden_layers\<close> is bound to.\<close>

definition hidden_layers_object :: "fnogno_args \<Rightarrow> ref" where
  "hidden_layers_object a =
     (case gno_channel_mixing_hidden_layers a of
        Some r \<Rightarrow> r
      | None \<Rightarrow> default_hidden_layers)"

text \<open>
  \<^verbatim>\<open>FNOGNO.__init__\<close>: the constructor's own statements raise nothing. It prints its
  warnings, mutates the list object it was given (\<^verbatim>\<open>insert(0, ...)\<close>, \<^verbatim>\<open>append(...)\<close>)
  and hands that object to the kernel integral layer.
\<close>

definition FNOGNO_init :: "fnogno_args \<Rightarrow> heap \<Rightarrow> error + fnogno \<times> heap" where
  "FNOGNO_init a h =
     (let w1 = (if gno_coord_dim a \<noteq> 3 \<and> gno_use_open3d a
                then [Open3dExpects3d (gno_coord_dim a)] else []);
          in_coord_dim = int (length (fno_n_modes a));
          w2 = (if in_coord_dim \<noteq> gno_coord_dim a
                then [FnoGnoDimMismatch in_coord_dim (gno_coord_dim a)] else []);
          forward0 = map int [0..<length (fno_n_modes a)];
          reverse0 = map (\<lambda>j. j + 1) forward0;
          forward_order = (if gno_batched a then map (\<lambda>j. j + 1) forward0 else forward0);
          reverse_order = (if gno_batched a then map (\<lambda>j. j + 1) reverse0 else reverse0);
          adain_pos_embed =
            (if fno_norm a = Some ''ada_in''
             then (case fno_ada_in_features a of
                     Some n \<Rightarrow> Assigned (Some n)
                   | None \<Rightarrow> Unassigned)
             else Assigned None);
          ada_in_dim =
            (if fno_norm a = Some ''ada_in''
             then (case fno_ada_in_features a of
                     Some n \<Rightarrow> Some (fno_ada_in_dim a * n)
                   | None \<Rightarrow> Some (fno_ada_in_dim a))
             else None);
          fno = \<lparr> fno_in_channels = in_channels a + in_coord_dim,
                  fno_hidden = fno_hidden_channels a,
                  fno_out_channels = fno_hidden_channels a,
                  fno_lifting = fno_lifting_channels a,
                  fno_projection_channels = 1,
                  fno_modes = fno_n_modes a,
                  fno_layers = fno_n_layers a,
                  fno_norm_layer = fno_norm a,
                  fno_ada_in = ada_in_dim,
                  fno_padding = fno_domain_padding a,
                  fno_padding_mode = fno_domain_padding_mode a \<rparr>;
          coord_dim_embed = fnogno_coord_dim_embed a;
          kernel_in_dim =
            fnogno_kernel_in_dim coord_dim_embed (fno_hidden_channels a) (gno_transform_type a);
          layers = hidden_layers_object a;
          h1 = h(layers := kernel_in_dim # h layers);
          h2 = h1(layers := h1 layers @ [fno_hidden_channels a])
      in Inr (\<lparr> self_gno_coord_dim = gno_coord_dim a,
                 self_in_coord_dim = in_coord_dim,
                 self_in_coord_dim_forward_order = forward_order,
                 self_in_coord_dim_reverse_order = reverse_order,
                 self_gno_batched = gno_batched a,
                 self_adain_pos_embed = adain_pos_embed,
                 self_ada_in_dim = ada_in_dim,
                 self_fno = fno,
                 self_nb_search_out = \<lparr> use_open3d = gno_use_open3d a \<rparr>,
                 self_gno_radius = gno_radius a,
                 self_pos_embed = gno_coord_embed_dim a,
                 self_gno_coord_dim_embed = coord_dim_embed,
                 self_gno = \<lparr> gno_layers_object = layers,
                               gno_layers = h2 layers,
                               gno_module_transform_type = gno_transform_type a \<rparr>,
                 self_projection = \<lparr> cm_in_channels = fno_hidden_channels a,
                                      cm_out_channels = out_channels a,
                                      cm_hidden_channels = projection_channels a,
                                      cm_n_layers = 2,
                                      cm_n_dim = 1 \<rparr>,
                 printed = w1 @ w2 \<rparr>, h2))"

section \<open>FNOGNO: the forward pass\<close>

text \<open>
  The tensor library and the sub-modules' own forward passes (lifting, spectral blocks,
  domain padding, positional embedding, neighbour search, kernel integral, projection)
  are not part of fnogno.py. The forward pass is modelled over an arbitrary tensor type
  \<open>'t\<close> and neighbour-graph type \<open>'n\<close>, with those operations as the fields of an
  environment. The spectral blocks read the adaptive-normalisation embedding that
  \<^verbatim>\<open>set_ada_in_embeddings\<close> stored last; it is their first argument.
\<close>

record ('t, 'n) env =
  t_shape :: "'t \<Rightarrow> int list"
  t_repeat :: "'t \<Rightarrow> int list \<Rightarrow> 't"
  t_cat :: "'t \<Rightarrow> 't \<Rightarrow> int \<Rightarrow> 't"
  t_permute :: "'t \<Rightarrow> int list \<Rightarrow> 't"
  t_unsqueeze :: "'t \<Rightarrow> int \<Rightarrow> 't"
  t_squeeze :: "'t \<Rightarrow> int \<Rightarrow> 't"
  t_view :: "'t \<Rightarrow> int list \<Rightarrow> 't"
  t_reshape :: "'t \<Rightarrow> int list \<Rightarrow> 't"
  sinusoidal_embedding :: "int \<Rightarrow> 't \<Rightarrow> 't"
  lifting :: "'t \<Rightarrow> 't"
  domain_padding :: "(('t \<Rightarrow> 't) \<times> ('t \<Rightarrow> 't)) option"
  fno_blocks :: "'t option \<Rightarrow> 't \<Rightarrow> int \<Rightarrow> 't"
  nb_search :: "neighbor_search \<Rightarrow> 't \<Rightarrow> 't \<Rightarrow> real \<Rightarrow> 'n"
  gno :: "gno_module \<Rightarrow> 't \<Rightarrow> 'n \<Rightarrow> 't \<Rightarrow> 't \<Rightarrow> 't"
  projection :: "channel_mixing_module \<Rightarrow> 't \<Rightarrow> 't"

text \<open>Python's \<^verbatim>\<open>shape[i]\<close>: a negative index counts from the end.\<close>

definition shape_at :: "int list \<Rightarrow> int \<Rightarrow> error + int" where
  "shape_at sh i =
     (let n = int (length sh); j = (if i < 0 then n + i else i)
      in if 0 \<le> j \<and> j < n then Inr (sh ! nat j) else Inl IndexError)"

text \<open>
  Lines 276-286 of \<^verbatim>\<open>latent_embedding\<close>: the function values are concatenated with the
  coordinates and the channel axis is moved to the front.
\<close>

definition embed_input :: "('t, 'n) env \<Rightarrow> fnogno \<Rightarrow> 't \<Rightarrow> 't \<Rightarrow> error + 't" where
  "embed_input E self in_p f =
     (if self_gno_batched self
      then (case shape_at (t_shape E f) 0 of
              Inl e \<Rightarrow> Inl e
            | Inr batch_size \<Rightarrow>
                (let in_p1 = t_repeat E in_p
                               (batch_size # replicate (length (t_shape E in_p)) 1);
                     in_p2 = t_cat E f in_p1 (- 1)
                 in Inr (t_permute E in_p2
                           (0 # (- 1) # self_in_coord_dim_forward_order self))))
      else (let in_p2 = t_cat E f in_p (- 1)
            in Inr (t_unsqueeze E
                      (t_permute E in_p2 ((- 1) # self_in_coord_dim_forward_order self)) 0)))"

text \<open>
  Lines 288-295: when \<^verbatim>\<open>ada_in\<close> is given, its embedding is stored in the spectral
  blocks; when it is not, the blocks keep what they hold. The result is the stored
  embedding after the statement.
\<close>

definition update_ada_in ::
  "('t, 'n) env \<Rightarrow> fnogno \<Rightarrow> 't option \<Rightarrow> 't option \<Rightarrow> error + 't option" where
  "update_ada_in E self stored ada_in =
     (case ada_in of
        None \<Rightarrow> Inr stored
      | Some a \<Rightarrow>
          (case self_adain_pos_embed self of
             Unassigned \<Rightarrow> Inl AttributeError
           | Assigned (Some n) \<Rightarrow> Inr (Some (sinusoidal_embedding E n a))
           | Assigned None \<Rightarrow> Inr (Some a)))"

text \<open>Lines 299-312: lifting, padding, the spectral blocks in sequence, unpadding.\<close>

definition apply_fno_blocks :: "('t, 'n) env \<Rightarrow> fnogno \<Rightarrow> 't option \<Rightarrow> 't \<Rightarrow> 't" where
  "apply_fno_blocks E self stored x =
     (let x1 = lifting E x;
          x2 = (case domain_padding E of None \<Rightarrow> x1 | Some (pad, unpad) \<Rightarrow> pad x1);
          x3 = fold (\<lambda>layer_idx acc. fno_blocks E stored acc layer_idx)
                 (map int [0..<nat (fno_layers (self_fno self))]) x2;
          x4 = (case domain_padding E of None \<Rightarrow> x3 | Some (pad, unpad) \<Rightarrow> unpad x3)
      in if self_gno_batched self then x4 else t_squeeze E x4 0)"

text \<open>
  \<^verbatim>\<open>latent_embedding(in_p, f, ada_in)\<close>: the result, and the embedding the spectral
  blocks hold when the call ends (also when it ends in an exception).
\<close>

definition latent_embedding ::
  "('t, 'n) env \<Rightarrow> fnogno \<Rightarrow> 't option \<Rightarrow> 't \<Rightarrow> 't \<Rightarrow> 't option \<Rightarrow>
   (error + 't) \<times> 't option" where
  "latent_embedding E self stored in_p f ada_in =
     (case embed_input E self in_p f of
        Inl e \<Rightarrow> (Inl e, stored)
      | Inr x \<Rightarrow>
          (case update_ada_in E self stored ada_in of
             Inl e \<Rightarrow> (Inl e, stored)
           | Inr stored' \<Rightarrow> (Inr (apply_fno_blocks E self stored' x), stored')))"

text \<open>\<^verbatim>\<open>integrate_latent(in_p, out_p, latent_embed)\<close>, lines 314-380.\<close>

definition embed_points :: "('t, 'n) env \<Rightarrow> fnogno \<Rightarrow> 't \<Rightarrow> int \<Rightarrow> 't" where
  "embed_points E self p n =
     (case self_pos_embed self of
        Some d \<Rightarrow> t_reshape E (sinusoidal_embedding E d (t_reshape E p [- 1])) [n, - 1]
      | None \<Rightarrow> t_reshape E p [n, - 1])"

definition integrate_latent ::
  "('t, 'n) env \<Rightarrow> fnogno \<Rightarrow> 't \<Rightarrow> 't \<Rightarrow> 't \<Rightarrow> error + 't" where
  "integrate_latent E self in_p out_p latent_embed =
     (case shape_at (t_shape E in_p) (- 1) of
        Inl e \<Rightarrow> Inl e
      | Inr k \<Rightarrow>
     (let flat = t_view E in_p [- 1, k];
          in_to_out_nb = nb_search E (self_nb_search_out self) flat out_p (self_gno_radius self)
      in case shape_at (t_shape E flat) 0 of
        Inl e \<Rightarrow> Inl e
      | Inr n_in \<Rightarrow>
     (let in_p_embed = embed_points E self in_p n_in
      in case shape_at (t_shape E out_p) 0 of
        Inl e \<Rightarrow> Inl e
      | Inr n_out \<Rightarrow>
     (let out_p_embed = (case self_pos_embed self of
                           Some d \<Rightarrow> embed_points E self out_p n_out
                         | None \<Rightarrow> out_p)
      in case (if self_gno_batched self
               then (case shape_at (t_shape E latent_embed) 0 of
                       Inl e \<Rightarrow> Inl e
                     | Inr batch_size \<Rightarrow>
                         Inr (t_reshape E
                                (t_permute E latent_embed
                                   (0 # self_in_coord_dim_reverse_order self @ [1]))
                                [batch_size, - 1, fno_hidden (self_fno self)]))
               else Inr (t_reshape E
                           (t_permute E latent_embed
                              (self_in_coord_dim_reverse_order self @ [0]))
                           [- 1, fno_hidden (self_fno self)])) of
        Inl e \<Rightarrow> Inl e
      | Inr latent \<Rightarrow>
     (let out0 = gno E (self_gno self) in_p_embed in_to_out_nb out_p_embed latent;
          out1 = (if length (t_shape E out0) = 2 then t_unsqueeze E out0 0 else out0);
          out2 = t_permute E out1 [0, 2, 1];
          out3 = projection E (self_projection self) out2
      in Inr (if self_gno_batched self
              then t_permute E out3 [0, 2, 1]
              else t_permute E (t_squeeze E out3 0) [1, 0]))))))"

text \<open>
  \<^verbatim>\<open>forward(in_p, out_p, f, ada_in=None)\<close>: the output (or the exception), and the
  embedding the spectral blocks hold afterwards.
\<close>

definition forward ::
  "('t, 'n) env \<Rightarrow> fnogno \<Rightarrow> 't option \<Rightarrow> 't \<Rightarrow> 't \<Rightarrow> 't \<Rightarrow> 't option \<Rightarrow>
   (error + 't) \<times> 't option" where
  "forward E self stored in_p out_p f ada_in =
     (case latent_embedding E self stored in_p f ada_in of
        (Inl e, stored') \<Rightarrow> (Inl e, stored')
      | (Inr latent_embed, stored') \<Rightarrow>
          (integrate_latent E self in_p out_p latent_embed, stored'))"

section \<open>Segmented reduction (specification section 4.2)\<close>

text \<open>Python's \<^verbatim>\<open>xs[a:b]\<close> for non-negative bounds: empty when \<open>b \<le> a\<close>, cut at the end of the list.\<close>

definition slice :: "'a list \<Rightarrow> nat \<Rightarrow> nat \<Rightarrow> 'a list" where
  "slice xs a b = take (b - a) (drop a xs)"

datatype reduce_op = ReduceSum | ReduceMean

definition vadd :: "real list \<Rightarrow> real list \<Rightarrow> real list" where
  "vadd u v = map2 (+) u v"

text \<open>The sum of feature vectors of width \<open>d\<close>; the empty sum is the zero vector.\<close>

definition vsum :: "nat \<Rightarrow> real list list \<Rightarrow> real list" where
  "vsum d vs = foldr vadd vs (replicate d 0)"

definition reduce_block :: "nat \<Rightarrow> reduce_op \<Rightarrow> real list list \<Rightarrow> real list" where
  "reduce_block d op vs =
     (case op of
        ReduceSum \<Rightarrow> vsum d vs
      | ReduceMean \<Rightarrow>
          if vs = [] then replicate d 0
          else map (\<lambda>s. s / real (length vs)) (vsum d vs))"

text \<open>
  Modelled from the spec: \<^verbatim>\<open>segment_csr\<close> (neuralop/layers/segment\_csr.py is missing from
  the sources; only its test is present). \<^verbatim>\<open>reduce(values, row_boundaries, op)\<close> with
  \<open>values\<close> the per-edge feature vectors of width \<open>d\<close> in CSR order: one output per pair of
  consecutive row boundaries, \<open>op\<close> over the values between them, an empty range giving
  the zero vector for both operations.
\<close>

definition segment_csr ::
  "nat \<Rightarrow> real list list \<Rightarrow> nat list \<Rightarrow> reduce_op \<Rightarrow> real list list" where
  "segment_csr d values row_boundaries op =
     map (\<lambda>i. reduce_block d op
                 (slice values (row_boundaries ! i) (row_boundaries ! Suc i)))
       [0..<length row_boundaries - 1]"

text \<open>
  The value \<open>values[e][c]\<close> replaced by \<open>t\<close>: the variable a partial derivative of the
  reduction is taken in.
\<close>

definition set_entry :: "real list list \<Rightarrow> nat \<Rightarrow> nat \<Rightarrow> real \<Rightarrow> real list list" where
  "set_entry values e c t = values[e := (values ! e)[c := t]]"

section \<open>Neighbour graph and kernel integral transform (specification sections 3, 4.1, 4.3)\<close>

text \<open>
  The CSR neighbour graph of section 3: the data indices of all edges, grouped by query,
  and the row boundaries of the groups.
\<close>

record neighbor_graph =
  neighbors_index :: "nat list"
  neighbors_row_splits :: "nat list"

definition sq_dist :: "real list \<Rightarrow> real list \<Rightarrow> real" where
  "sq_dist u v = (\<Sum>(a, b)\<leftarrow>zip u v. (a - b)\<^sup>2)"

text \<open>Inclusive radius test: the Euclidean distance is at most \<open>r\<close>.\<close>

definition within_radius :: "real \<Rightarrow> real list \<Rightarrow> real list \<Rightarrow> bool" where
  "within_radius r x y \<longleftrightarrow> 0 \<le> r \<and> sq_dist x y \<le> r\<^sup>2"

definition neighbors_of :: "real \<Rightarrow> real list list \<Rightarrow> real list \<Rightarrow> nat list" where
  "neighbors_of r data x = filter (\<lambda>j. within_radius r x (data ! j)) [0..<length data]"

fun row_splits_from :: "nat \<Rightarrow> nat list \<Rightarrow> nat list" where
  "row_splits_from s [] = [s]"
| "row_splits_from s (n # ns) = s # row_splits_from (s + n) ns"

text \<open>
  Modelled from the spec: the brute-force strategy of \<^verbatim>\<open>NeighborSearch\<close>
  (neuralop/layers/neighbor\_search.py is missing from the sources): all pairwise
  distances, an edge \<open>(i, j)\<close> exactly when query \<open>i\<close> and data point \<open>j\<close> are within the
  radius, edges grouped by query.
\<close>

definition brute_force_search ::
  "neighbor_search \<Rightarrow> real list list \<Rightarrow> real list list \<Rightarrow> real \<Rightarrow> neighbor_graph" where
  "brute_force_search strategy data queries radius =
     \<lparr> neighbors_index = concat (map (neighbors_of radius data) queries),
       neighbors_row_splits =
         row_splits_from 0 (map (\<lambda>x. length (neighbors_of radius data x)) queries) \<rparr>"

text \<open>Indexing that raises out of range, and the first error of a list of results.\<close>

definition lookup :: "'a list \<Rightarrow> nat \<Rightarrow> error + 'a" where
  "lookup xs i = (if i < length xs then Inr (xs ! i) else Inl IndexError)"

fun collect :: "(error + 'a) list \<Rightarrow> error + 'a list" where
  "collect [] = Inr []"
| "collect (Inl e # rs) = Inl e"
| "collect (Inr v # rs) = (case collect rs of Inl e \<Rightarrow> Inl e | Inr vs \<Rightarrow> Inr (v # vs))"

text \<open>The output width of a kernel network: its last layer's.\<close>

fun kernel_out_channels :: "kernel_net \<Rightarrow> int option" where
  "kernel_out_channels (UserChannelMLP m) = Some (mlp_out_channels m)"
| "kernel_out_channels (LinearChannelMLP []) = None"
| "kernel_out_channels (LinearChannelMLP (w # ws)) = Some (last (w # ws))"

text \<open>
  The learned kernel is a function \<open>k\<close> on channel vectors. Its network accepts exactly its
  input width (section 4.3); any other width is a shape mismatch at call time (section 7).
\<close>

definition apply_kernel ::
  "kernel_net \<Rightarrow> (real list \<Rightarrow> real list) \<Rightarrow> real list \<Rightarrow> error + real list" where
  "apply_kernel net k v =
     (if kernel_in_channels net = Some (int (length v))
      then Inr (k v) else Inl ShapeError)"

text \<open>The query each edge belongs to, read off the row boundaries.\<close>

definition edge_rows :: "nat list \<Rightarrow> nat list" where
  "edge_rows splits =
     concat (map (\<lambda>i. replicate (splits ! Suc i - splits ! i) i) [0..<length splits - 1])"

text \<open>
  The transform type in effect: with \<open>f_y\<close> omitted the kernel-only variant (a) is
  computed whatever the layer was configured with.
\<close>

definition effective_type :: "string \<Rightarrow> bool \<Rightarrow> string" where
  "effective_type transform_type f_given =
     (if f_given then transform_type else ''linear_kernelonly'')"

text \<open>
  The integrand on one edge, from query point \<open>x\<close> to data point \<open>y\<close> with features \<open>f\<close>:
  \<open>k(x, y)\<close>, \<open>k(x, y) * f\<close>, \<open>k(x, y, f)\<close> or \<open>k(x, y, f) * f\<close>, the product taken channel by
  channel.
\<close>

definition integrand ::
  "kernel_net \<Rightarrow> (real list \<Rightarrow> real list) \<Rightarrow> string \<Rightarrow>
   real list \<Rightarrow> real list \<Rightarrow> real list \<Rightarrow> error + real list" where
  "integrand net k t x y f =
     (let agg = (if t = ''nonlinear'' \<or> t = ''nonlinear_kernelonly'' then x @ y @ f else x @ y)
      in case apply_kernel net k agg of
           Inl e \<Rightarrow> Inl e
         | Inr kv \<Rightarrow>
             if t = ''linear'' \<or> t = ''nonlinear''
             then (if length kv = length f then Inr (map2 (*) kv f) else Inl ShapeError)
             else Inr kv)"

text \<open>
  Modelled from the spec: the forward pass of \<^verbatim>\<open>IntegralTransform\<close>
  (neuralop/layers/integral\_transform.py is missing from the sources), section 4.3:
  \<open>out(x) = \<Sum> integrand * w(y)\<close> over the neighbours of \<open>x\<close>, with \<open>w(y)\<close> the given weight of
  the data point, or \<open>1/|N(x)|\<close> when no weights are given (the mean over the neighbours),
  computed by the segmented reduction over the edges in CSR order. An isolated query point
  gets the zero vector.
\<close>

definition integral_transform_forward ::
  "(real list \<Rightarrow> real list) \<Rightarrow> integral_transform \<Rightarrow> real list list \<Rightarrow> real list list \<Rightarrow>
   neighbor_graph \<Rightarrow> real list list option \<Rightarrow> real list option \<Rightarrow> error + real list list" where
  "integral_transform_forward k cfg y x neighbors f_y weights =
     (let t = effective_type (it_transform_type cfg) (f_y \<noteq> None);
          net = it_channel_mlp cfg;
          rows = edge_rows (neighbors_row_splits neighbors);
          edge = (\<lambda>(i, j).
            case lookup x i of Inl e \<Rightarrow> Inl e | Inr xi \<Rightarrow>
            case lookup y j of Inl e \<Rightarrow> Inl e | Inr yj \<Rightarrow>
            case (case f_y of None \<Rightarrow> Inr [] | Some fs \<Rightarrow> lookup fs j) of
              Inl e \<Rightarrow> Inl e | Inr fj \<Rightarrow>
            case integrand net k t xi yj fj of Inl e \<Rightarrow> Inl e | Inr v \<Rightarrow>
            case weights of
              None \<Rightarrow> Inr v
            | Some ws \<Rightarrow>
                (case lookup ws j of Inl e \<Rightarrow> Inl e | Inr w \<Rightarrow> Inr (map (\<lambda>s. w * s) v)))
      in if length rows = length (neighbors_index neighbors)
            \<and> length (neighbors_row_splits neighbors) = Suc (length x)
         then case kernel_out_channels net of
                None \<Rightarrow> Inl ShapeError
              | Some d \<Rightarrow>
                  (case collect (map edge (zip rows (neighbors_index neighbors))) of
                     Inl e \<Rightarrow> Inl e
                   | Inr values \<Rightarrow>
                       Inr (segment_csr (nat d) values (neighbors_row_splits neighbors)
                              (if weights = None then ReduceMean else ReduceSum)))
         else Inl ShapeError)"

section \<open>An environment to run the forward pass in\<close>

text \<open>
  Modelled from the spec: spectral blocks with adaptive normalisation (section 4.5: the
  blocks are conditioned on an embedding "derived from an auxiliary scalar/vector"; the
  FNO blocks themselves are missing from the sources). In this instance of the
  environment a tensor is an integer, concatenation adds, every other tensor operation is
  the identity, the kernel integral returns the latent features, and a spectral block
  shifts its input by the embedding it holds.
\<close>

definition adain_env :: "(int, unit) env" where
  "adain_env =
     \<lparr> t_shape = (\<lambda>t. [1, 1]),
       t_repeat = (\<lambda>t reps. t),
       t_cat = (\<lambda>a b dim. a + b),
       t_permute = (\<lambda>t dims. t),
       t_unsqueeze = (\<lambda>t dim. t),
       t_squeeze = (\<lambda>t dim. t),
       t_view = (\<lambda>t sh. t),
       t_reshape = (\<lambda>t sh. t),
       sinusoidal_embedding = (\<lambda>n t. t),
       lifting = (\<lambda>t. t),
       domain_padding = None,
       fno_blocks = (\<lambda>stored x layer_idx. case stored of None \<Rightarrow> x | Some e \<Rightarrow> x + e),
       nb_search = (\<lambda>strategy data queries radius. ()),
       gno = (\<lambda>g y neighbors x f_y. f_y),
       projection = (\<lambda>c t. t) \<rparr>"

text \<open>
  The model \<^verbatim>\<open>FNOGNO(1, 1, fno_norm="ada_in", fno_ada_in_features=4, fno_n_layers=1)\<close>.
\<close>

definition adain_model :: fnogno where
  "adain_model =
     fst (projr (FNOGNO_init
                   ((fnogno_defaults 1 1)
                      \<lparr> fno_n_layers := 1, fno_norm := Some ''ada_in'',
                        fno_ada_in_features := Some 4 \<rparr>)
                   module_heap))"

section \<open>Domain padding (specification section 4.4)\<close>

text \<open>
  A dense array of any rank: a cell, or the list of its sub-arrays along the first axis.
\<close>

datatype 'a grid = Cell 'a | Axis "'a grid list"

fun grid_shape :: "'a grid \<Rightarrow> nat list" where
  "grid_shape (Cell v) = []"
| "grid_shape (Axis []) = [0]"
| "grid_shape (Axis (g # gs)) = Suc (length gs) # grid_shape g"

fun zeros :: "nat list \<Rightarrow> real grid" where
  "zeros [] = Cell 0"
| "zeros (n # ns) = Axis (replicate n (zeros ns))"

datatype padding_mode = Symmetric | OneSided

text \<open>
  Zero padding by \<open>p\<close> along each axis, the amounts listed from the first axis on:
  \<open>p\<close> zero slices after the data, and for the symmetric mode \<open>p\<close> before it as well.
\<close>

fun pad_axes :: "padding_mode \<Rightarrow> nat list \<Rightarrow> real grid \<Rightarrow> real grid" where
  "pad_axes mode [] g = g"
| "pad_axes mode (p # ps) (Cell v) = Cell v"
| "pad_axes mode (p # ps) (Axis gs) =
     (let inner = map (pad_axes mode ps) gs;
          z = zeros (case inner of [] \<Rightarrow> [] | g # _ \<Rightarrow> grid_shape g)
      in Axis (replicate (case mode of Symmetric \<Rightarrow> p | OneSided \<Rightarrow> 0) z
               @ inner @ replicate p z))"

fun unpad_axes :: "padding_mode \<Rightarrow> nat list \<Rightarrow> real grid \<Rightarrow> real grid" where
  "unpad_axes mode [] g = g"
| "unpad_axes mode (p # ps) (Cell v) = Cell v"
| "unpad_axes mode (p # ps) (Axis gs) =
     (let kept = (case mode of
                    Symmetric \<Rightarrow> take (length gs - 2 * p) (drop p gs)
                  | OneSided \<Rightarrow> take (length gs - p) gs)
      in Axis (map (unpad_axes mode ps) kept))"

text \<open>The padding of an axis of \<open>n\<close> points: the configured fraction of \<open>n\<close>, rounded.\<close>

definition pad_amount :: "real \<Rightarrow> nat \<Rightarrow> nat" where
  "pad_amount fraction n = nat (round (fraction * real n))"

text \<open>
  Modelled from the spec: the domain padding object of the FNO
  (neuralop/layers/padding.py is missing from the sources), section 4.4. It is configured
  with a fraction and a mode, pads the spatial axes of a latent grid (the axes after
  batch and channel), and remembers the amounts of its last \<^verbatim>\<open>pad\<close> so that \<^verbatim>\<open>unpad\<close>
  removes exactly them.
\<close>

record padding_state =
  dp_fraction :: real
  dp_mode :: padding_mode
  dp_recorded :: "nat list option"

definition pad :: "padding_state \<Rightarrow> real grid \<Rightarrow> real grid \<times> padding_state" where
  "pad dp x =
     (let amounts = [0, 0] @ map (pad_amount (dp_fraction dp)) (drop 2 (grid_shape x))
      in (pad_axes (dp_mode dp) amounts x, dp \<lparr> dp_recorded := Some amounts \<rparr>))"

definition unpad :: "padding_state \<Rightarrow> real grid \<Rightarrow> error + real grid" where
  "unpad dp x =
     (case dp_recorded dp of
        None \<Rightarrow> Inl KeyError
      | Some amounts \<Rightarrow> Inr (unpad_axes (dp_mode dp) amounts x))"

section \<open>The indexed neighbour search (specification section 4.1)\<close>

text \<open>
  A spatial index over the data points: a binary tree with one data point, its index in
  the point set and a splitting axis at every node. The points in the first subtree
  are smaller than the node's point on the node's axis, the points in the second are not.
\<close>

datatype kd_tree = Tip | Split nat "real list" nat kd_tree kd_tree

text \<open>A point is inserted at a leaf; the axis of a new node cycles with its depth.\<close>

fun kd_insert :: "nat \<Rightarrow> nat \<Rightarrow> real list \<Rightarrow> kd_tree \<Rightarrow> kd_tree" where
  "kd_insert depth j p Tip = Split j p (depth mod length p) Tip Tip"
| "kd_insert depth j p (Split j' p' axis lo hi) =
     (if p ! axis < p' ! axis
      then Split j' p' axis (kd_insert (Suc depth) j p lo) hi
      else Split j' p' axis lo (kd_insert (Suc depth) j p hi))"

definition kd_build :: "real list list \<Rightarrow> kd_tree" where
  "kd_build data = fold (\<lambda>(j, p) t. kd_insert 0 j p t) (List.enumerate 0 data) Tip"

text \<open>
  The fixed-radius query: a subtree is visited only when the ball of radius \<open>r\<close> around
  the query point reaches its side of the splitting plane.
\<close>

fun kd_query :: "real \<Rightarrow> real list \<Rightarrow> kd_tree \<Rightarrow> nat list" where
  "kd_query r x Tip = []"
| "kd_query r x (Split j p axis lo hi) =
     (if x ! axis - r < p ! axis then kd_query r x lo else [])
     @ (if within_radius r x p then [j] else [])
     @ (if p ! axis \<le> x ! axis + r then kd_query r x hi else [])"

text \<open>
  Modelled from the spec: the accelerated spatial-index strategy of \<^verbatim>\<open>NeighborSearch\<close>
  (the open3d-backed search; neuralop/layers/neighbor\_search.py is missing from the
  sources): a tree is built once over the data points, every query point is answered
  from the tree, and the neighbours of a query are listed in increasing index order, the
  edges grouped by query.
\<close>

definition indexed_search ::
  "neighbor_search \<Rightarrow> real list list \<Rightarrow> real list list \<Rightarrow> real \<Rightarrow> neighbor_graph" where
  "indexed_search strategy data queries radius =
     (let tree = kd_build data
      in \<lparr> neighbors_index = concat (map (\<lambda>x. sort (kd_query radius x tree)) queries),
            neighbors_row_splits =
              row_splits_from 0 (map (\<lambda>x. length (sort (kd_query radius x tree))) queries) \<rparr>)"

text \<open>The edge block of query \<open>i\<close> in a CSR graph: the data indices between its row boundaries.\<close>

definition neighbors_block :: "neighbor_graph \<Rightarrow> nat \<Rightarrow> nat list" where
  "neighbors_block g i =
     slice (neighbors_index g) (neighbors_row_splits g ! i) (neighbors_row_splits g ! Suc i)"

text \<open>
  What the proofs about the tree speak of: its entries, its indices in order, and the
  ordering invariant for points of dimension \<open>d\<close>.
\<close>

fun kd_entries :: "kd_tree \<Rightarrow> (nat \<times> real list) set" where
  "kd_entries Tip = {}"
| "kd_entries (Split j p axis lo hi) =
     insert (j, p) (kd_entries lo \<union> kd_entries hi)"

fun kd_indices :: "kd_tree \<Rightarrow> nat list" where
  "kd_indices Tip = []"
| "kd_indices (Split j p axis lo hi) = kd_indices lo @ j # kd_indices hi"

fun kd_invar :: "nat \<Rightarrow> kd_tree \<Rightarrow> bool" where
  "kd_invar d Tip = True"
| "kd_invar d (Split j p axis lo hi) =
     (axis < d \<and> length p = d
      \<and> (\<forall>(i, q) \<in> kd_entries lo. length q = d \<and> q ! axis < p ! axis)
      \<and> (\<forall>(i, q) \<in> kd_entries hi. length q = d \<and> p ! axis \<le> q ! axis)
      \<and> kd_invar d lo \<and> kd_invar d hi)"

section \<open>Evaluation facts\<close>

lemma search_one_point:
  "brute_force_search s [[0]] [[0]] 1 = \<lparr> neighbors_index = [0], neighbors_row_splits = [0, 1] \<rparr>"
  by (simp add: brute_force_search_def neighbors_of_def within_radius_def sq_dist_def)

lemmas gno_block_init_defs =
  GNOBlock_init_def take_channel_mlp_def take_channel_mlp_layers_def gno_block_kernel_in_dim_def

lemmas transform_defs =
  GNOBlock_forward_def integral_transform_forward_def effective_type_def edge_rows_def
  lookup_def integrand_def apply_kernel_def segment_csr_def slice_def reduce_block_def
  vsum_def vadd_def

section \<open>GNOBlock: construction and forward pass\<close>

text \<open>
  A GNOBlock that is built has a kernel network of input width \<open>2 * coord_dim\<close>, plus
  \<open>in_channels\<close> for the two nonlinear transform types, and a user-supplied network of any
  other input width is refused by the first assert.
\<close>

lemma GNOBlock_init_kernel_width:
  assumes "GNOBlock_init ic oc cd r nl m ls tt o3 sc = Inr b"
  shows "kernel_in_channels (blk_channel_mlp b) = Some (gno_block_kernel_in_dim cd ic tt)"
  using assms
  by (auto simp: GNOBlock_init_def take_channel_mlp_def take_channel_mlp_layers_def Let_def
      split: if_splits option.splits list.splits sum.splits attr.splits)

lemma GNOBlock_init_rejects_other_width:
  "mlp_in_channels m \<noteq> gno_block_kernel_in_dim cd ic tt \<Longrightarrow>
   GNOBlock_init ic oc cd r nl (Some m) ls tt o3 sc = Inl AssertionError"
  by (simp add: GNOBlock_init_def take_channel_mlp_def)

text \<open>
  FNOGNO adds the hidden channels for every transform type but \<^verbatim>\<open>"linear"\<close>, GNOBlock for the
  two nonlinear types only: the two rules differ on \<^verbatim>\<open>"linear_kernelonly"\<close> (and on any
  other string).
\<close>

lemma fnogno_kernel_in_dim_agrees_iff:
  "fnogno_kernel_in_dim e hc tt = gno_block_kernel_in_dim e hc tt \<longleftrightarrow>
   hc = 0 \<or> tt = ''linear'' \<or> tt = ''nonlinear'' \<or> tt = ''nonlinear_kernelonly''"
  by (auto simp: fnogno_kernel_in_dim_def gno_block_kernel_in_dim_def)

text \<open>
  Claim C5 (the kernel input width is \<open>2 * coord_dim\<close>, plus the function channels exactly for
  the nonlinear types, on every construction path): evaluated on FNOGNO's path for
  \<^verbatim>\<open>gno_transform_type="linear_kernelonly"\<close>, defaults otherwise. GNOBlock's rule gives width
  6; FNOGNO computes 70 and builds its kernel network from \<open>[70, 512, 256, 64]\<close>.
\<close>

theorem FNOGNO_kernel_width_linear_kernelonly:
  "gno_block_kernel_in_dim 3 64 ''linear_kernelonly'' = 6
 \<and> fnogno_kernel_in_dim 3 64 ''linear_kernelonly'' = 70
 \<and> (\<exists>m h. FNOGNO_init ((fnogno_defaults 1 1) \<lparr> gno_transform_type := ''linear_kernelonly'' \<rparr>)
              module_heap = Inr (m, h)
          \<and> gno_layers (self_gno m) = [70, 512, 256, 64])"
  by (simp add: gno_block_kernel_in_dim_def fnogno_kernel_in_dim_def FNOGNO_init_def
      fnogno_defaults_def module_heap_def hidden_layers_object_def fnogno_coord_dim_embed_def Let_def)

text \<open>
  Claim C3 (weights passed to \<^verbatim>\<open>GNOBlock.forward\<close> are the integral's weights): the output
  of \<^verbatim>\<open>GNOBlock.forward\<close> is the same with any weights as with none, for every neighbour
  search and integral transform. On one data point and one query point, with a kernel
  that is constantly \<open>[1]\<close>, \<^verbatim>\<open>GNOBlock.forward\<close> returns \<open>[[1]]\<close> with weights \<open>[3]\<close> and
  without weights, while the integral transform called with those weights returns
  \<open>[[3]]\<close>.
\<close>

theorem GNOBlock_forward_ignores_weights:
  "GNOBlock_forward search transform self y x f_y (Some w) =
   GNOBlock_forward search transform self y x f_y None
 \<and> (\<exists>blk. GNOBlock_init 1 1 1 1 None None (Some [8]) ''linear_kernelonly'' False True = Inr blk
      \<and> GNOBlock_forward brute_force_search (integral_transform_forward (\<lambda>v. [1])) blk
            [[0]] [[0]] None (Some [3]) = Inr [[1]]
      \<and> GNOBlock_forward brute_force_search (integral_transform_forward (\<lambda>v. [1])) blk
            [[0]] [[0]] None None = Inr [[1]]
      \<and> integral_transform_forward (\<lambda>v. [1]) (blk_integral_transform blk) [[0]] [[0]]
            (brute_force_search (blk_neighbor_search blk) [[0]] [[0]] (blk_radius blk))
            None (Some [3]) = Inr [[3]])"
  by (simp add: gno_block_init_defs transform_defs search_one_point)

text \<open>With \<open>f_y\<close> omitted a layer configured "linear" computes what one configured "linear_kernelonly" does.\<close>

lemma linear_without_f_y:
  "integral_transform_forward k (cfg \<lparr> it_transform_type := ''linear'' \<rparr>) y x nb None w =
   integral_transform_forward k (cfg \<lparr> it_transform_type := ''linear_kernelonly'' \<rparr>) y x nb None w"
  by (simp add: integral_transform_forward_def effective_type_def)

text \<open>
  Claim C4 (with \<open>f_y\<close> omitted every transform type computes the kernel-only variant
  without error): it holds for "linear", which then equals "linear_kernelonly"; a
  GNOBlock configured "nonlinear" with one function channel has a kernel network of input
  width 3, the kernel-only integrand feeds it the 2 coordinates of \<open>(x, y)\<close>, and the call
  ends in a shape error.
\<close>

theorem omitted_f_y_fails_for_nonlinear:
  "integral_transform_forward k (cfg \<lparr> it_transform_type := ''linear'' \<rparr>) y x nb None w =
   integral_transform_forward k (cfg \<lparr> it_transform_type := ''linear_kernelonly'' \<rparr>) y x nb None w
 \<and> (\<exists>blk. GNOBlock_init 1 1 1 1 None None (Some [8]) ''linear'' False True = Inr blk
      \<and> GNOBlock_forward brute_force_search (integral_transform_forward (\<lambda>v. [sum_list v + 1])) blk
            [[0]] [[0]] None None = Inr [[1]])
 \<and> (\<exists>blk. GNOBlock_init 1 1 1 1 None None (Some [8]) ''nonlinear'' False True = Inr blk
      \<and> kernel_in_channels (blk_channel_mlp blk) = Some 3
      \<and> GNOBlock_forward brute_force_search (integral_transform_forward k') blk
            [[0]] [[0]] None None = Inl ShapeError)"
proof -
  have "\<exists>blk. GNOBlock_init 1 1 1 1 None None (Some [8]) ''linear'' False True = Inr blk
      \<and> GNOBlock_forward brute_force_search (integral_transform_forward (\<lambda>v. [sum_list v + 1])) blk
            [[0]] [[0]] None None = Inr [[1]]"
    by (simp add: gno_block_init_defs transform_defs search_one_point)
  moreover
  have "\<exists>blk. GNOBlock_init 1 1 1 1 None None (Some [8]) ''nonlinear'' False True = Inr blk
      \<and> kernel_in_channels (blk_channel_mlp blk) = Some 3
      \<and> GNOBlock_forward brute_force_search (integral_transform_forward k') blk
            [[0]] [[0]] None None = Inl ShapeError"
    by (simp add: gno_block_init_defs transform_defs search_one_point)
  ultimately show ?thesis using linear_without_f_y by blast
qed

section \<open>FNOGNO: construction\<close>

text \<open>
  Claim C9, amended. With the open3d neighbour search selected and a coordinate dimension
  other than 3, \<^verbatim>\<open>GNOBlock.__init__\<close> fails with an assertion error; \<^verbatim>\<open>FNOGNO.__init__\<close>
  prints a warning, builds the model and selects the open3d search.
\<close>

theorem open3d_dimension_check:
  assumes "coord_dim \<noteq> 3"
  shows "GNOBlock_init ic oc coord_dim radius nl mlp layers tt True sc = Inl AssertionError
       \<and> (\<exists>m h'. FNOGNO_init (a \<lparr> gno_coord_dim := coord_dim, gno_use_open3d := True \<rparr>) h = Inr (m, h')
              \<and> use_open3d (self_nb_search_out m)
              \<and> hd (printed m) = Open3dExpects3d coord_dim)"
  using assms by (simp add: GNOBlock_init_def FNOGNO_init_def Let_def)

text \<open>The two constructors at coordinate dimension 2.\<close>

theorem open3d_dimension_check_witness:
  "GNOBlock_init 1 1 2 1 None None (Some [8]) ''linear'' True True = Inl AssertionError
 \<and> (\<exists>m h'. FNOGNO_init ((fnogno_defaults 1 1) \<lparr> gno_coord_dim := 2, gno_use_open3d := True \<rparr>)
              module_heap = Inr (m, h')
          \<and> use_open3d (self_nb_search_out m)
          \<and> hd (printed m) = Open3dExpects3d 2)"
proof -
  have "(2::int) \<noteq> 3" by simp
  from open3d_dimension_check[OF this, of 1 1 1 None None "Some [8]" "''linear''" True
         "fnogno_defaults 1 1" module_heap]
  show ?thesis by simp
qed

text \<open>
  Claim C9 as stated fails: \<^verbatim>\<open>FNOGNO(1, 1, gno_coord_dim=2, gno_use_open3d=True)\<close> is
  constructed, with the open3d search selected, after the two warnings.
\<close>

theorem FNOGNO_open3d_2d_constructs:
  "case FNOGNO_init ((fnogno_defaults 1 1) \<lparr> gno_coord_dim := 2, gno_use_open3d := True \<rparr>) module_heap of
     Inl e \<Rightarrow> False
   | Inr (m, h) \<Rightarrow> use_open3d (self_nb_search_out m) \<and> self_gno_coord_dim m = 2
        \<and> printed m = [Open3dExpects3d 2, FnoGnoDimMismatch 3 2]"
  by (simp add: FNOGNO_init_def Let_def fnogno_defaults_def)

lemmas fnogno_init_defs =
  FNOGNO_init_def Let_def hidden_layers_object_def fnogno_kernel_in_dim_def
  fnogno_coord_dim_embed_def

text \<open>
  Claim C10. \<^verbatim>\<open>FNOGNO.__init__\<close> changes the list it is given in place. For a list object
  \<open>L\<close> passed as \<^verbatim>\<open>gno_channel_mixing_hidden_layers\<close>: afterwards \<open>L\<close> holds the kernel input
  width, then its old contents, then \<^verbatim>\<open>fno_hidden_channels\<close>, two elements more; no other
  list object is changed; and the kernel network is built from \<open>L\<close>. With the argument
  omitted the same happens to the module-level default list. Two constructions with the
  same list build the second kernel network from the list the first one extended. A
  caller's list \<open>[7]\<close> becomes \<open>[6, 7, 64]\<close> and leaves the default \<open>[512, 256]\<close> alone; two
  constructions with the default list build from \<open>[6, 512, 256, 64]\<close> and then from
  \<open>[6, 6, 512, 256, 64, 64]\<close>.
\<close>

theorem FNOGNO_init_mutates_hidden_layers:
  "(let K = (\<lambda>a. 2 * (case gno_coord_embed_dim a of
                          Some e \<Rightarrow> gno_coord_dim a * e
                        | None \<Rightarrow> gno_coord_dim a)
                 + (if gno_transform_type a \<noteq> ''linear'' then fno_hidden_channels a else 0));
        passed = (\<lambda>a L. a \<lparr> gno_channel_mixing_hidden_layers := Some L \<rparr>);
        omitted = (\<lambda>a. a \<lparr> gno_channel_mixing_hidden_layers := None \<rparr>)
    in (\<exists>m h'. FNOGNO_init (passed a L) h = Inr (m, h')
          \<and> h' L = K a # h L @ [fno_hidden_channels a]
          \<and> length (h' L) = length (h L) + 2
          \<and> h' = h(L := h' L)
          \<and> gno_layers_object (self_gno m) = L
          \<and> gno_layers (self_gno m) = K a # h L @ [fno_hidden_channels a])
     \<and> (\<exists>m h'. FNOGNO_init (omitted a) h = Inr (m, h')
          \<and> h' default_hidden_layers =
              K a # h default_hidden_layers @ [fno_hidden_channels a]
          \<and> length (h' default_hidden_layers) = length (h default_hidden_layers) + 2
          \<and> h' = h(default_hidden_layers := h' default_hidden_layers)
          \<and> gno_layers_object (self_gno m) = default_hidden_layers
          \<and> gno_layers (self_gno m) =
              K a # h default_hidden_layers @ [fno_hidden_channels a])
     \<and> (\<exists>m1 h1 m2 h2.
            FNOGNO_init (passed a L) h = Inr (m1, h1)
          \<and> FNOGNO_init (passed b L) h1 = Inr (m2, h2)
          \<and> gno_layers (self_gno m2) =
              K b # K a # h L @ [fno_hidden_channels a, fno_hidden_channels b]
          \<and> h2 L = K b # K a # h L @ [fno_hidden_channels a, fno_hidden_channels b])
     \<and> (\<exists>m1 h1 m2 h2.
            FNOGNO_init (omitted a) h = Inr (m1, h1)
          \<and> FNOGNO_init (omitted b) h1 = Inr (m2, h2)
          \<and> gno_layers (self_gno m2) =
              K b # K a # h default_hidden_layers
                @ [fno_hidden_channels a, fno_hidden_channels b]))
 \<and> (\<exists>m h'. FNOGNO_init ((fnogno_defaults ic oc) \<lparr> gno_channel_mixing_hidden_layers := Some 5 \<rparr>)
               (module_heap(5 := [7])) = Inr (m, h')
          \<and> gno_layers (self_gno m) = [6, 7, 64]
          \<and> h' 5 = [6, 7, 64]
          \<and> h' default_hidden_layers = [512, 256])
 \<and> (\<exists>m1 h1 m2 h2.
        FNOGNO_init (fnogno_defaults ic oc) module_heap = Inr (m1, h1)
      \<and> FNOGNO_init (fnogno_defaults ic' oc') h1 = Inr (m2, h2)
      \<and> module_heap default_hidden_layers = [512, 256]
      \<and> gno_layers (self_gno m1) = [6, 512, 256, 64]
      \<and> h1 default_hidden_layers = [6, 512, 256, 64]
      \<and> gno_layers (self_gno m2) = [6, 6, 512, 256, 64, 64]
      \<and> h2 default_hidden_layers = [6, 6, 512, 256, 64, 64])"
proof -
  have concrete:
    "\<exists>m h'. FNOGNO_init ((fnogno_defaults ic oc) \<lparr> gno_channel_mixing_hidden_layers := Some 5 \<rparr>)
               (module_heap(5 := [7])) = Inr (m, h')
          \<and> gno_layers (self_gno m) = [6, 7, 64]
          \<and> h' 5 = [6, 7, 64]
          \<and> h' default_hidden_layers = [512, 256]"
    by (simp add: fnogno_init_defs fnogno_defaults_def module_heap_def default_hidden_layers_def)
  have twice:
    "\<exists>m1 h1 m2 h2.
        FNOGNO_init (fnogno_defaults ic oc) module_heap = Inr (m1, h1)
      \<and> FNOGNO_init (fnogno_defaults ic' oc') h1 = Inr (m2, h2)
      \<and> module_heap default_hidden_layers = [512, 256]
      \<and> gno_layers (self_gno m1) = [6, 512, 256, 64]
      \<and> h1 default_hidden_layers = [6, 512, 256, 64]
      \<and> gno_layers (self_gno m2) = [6, 6, 512, 256, 64, 64]
      \<and> h2 default_hidden_layers = [6, 6, 512, 256, 64, 64]"
    by (simp add: fnogno_init_defs fnogno_defaults_def module_heap_def)
  have general:
    "(let K = (\<lambda>a. 2 * (case gno_coord_embed_dim a of
                             Some e \<Rightarrow> gno_coord_dim a * e
                           | None \<Rightarrow> gno_coord_dim a)
                    + (if gno_transform_type a \<noteq> ''linear'' then fno_hidden_channels a else 0));
           passed = (\<lambda>a L. a \<lparr> gno_channel_mixing_hidden_layers := Some L \<rparr>);
           omitted = (\<lambda>a. a \<lparr> gno_channel_mixing_hidden_layers := None \<rparr>)
       in (\<exists>m h'. FNOGNO_init (passed a L) h = Inr (m, h')
             \<and> h' L = K a # h L @ [fno_hidden_channels a]
             \<and> length (h' L) = length (h L) + 2
             \<and> h' = h(L := h' L)
             \<and> gno_layers_object (self_gno m) = L
             \<and> gno_layers (self_gno m) = K a # h L @ [fno_hidden_channels a])
        \<and> (\<exists>m h'. FNOGNO_init (omitted a) h = Inr (m, h')
             \<and> h' default_hidden_layers =
                 K a # h default_hidden_layers @ [fno_hidden_channels a]
             \<and> length (h' default_hidden_layers) = length (h default_hidden_layers) + 2
             \<and> h' = h(default_hidden_layers := h' default_hidden_layers)
             \<and> gno_layers_object (self_gno m) = default_hidden_layers
             \<and> gno_layers (self_gno m) =
                 K a # h default_hidden_layers @ [fno_hidden_channels a])
        \<and> (\<exists>m1 h1 m2 h2.
               FNOGNO_init (passed a L) h = Inr (m1, h1)
             \<and> FNOGNO_init (passed b L) h1 = Inr (m2, h2)
             \<and> gno_layers (self_gno m2) =
                 K b # K a # h L @ [fno_hidden_channels a, fno_hidden_channels b]
             \<and> h2 L = K b # K a # h L @ [fno_hidden_channels a, fno_hidden_channels b])
     \<and> (\<exists>m1 h1 m2 h2.
            FNOGNO_init (omitted a) h = Inr (m1, h1)
          \<and> FNOGNO_init (omitted b) h1 = Inr (m2, h2)
          \<and> gno_layers (self_gno m2) =
              K b # K a # h default_hidden_layers
                @ [fno_hidden_channels a, fno_hidden_channels b]))"
    by (simp add: fnogno_init_defs cong: option.case_cong)
  from general concrete twice show ?thesis by (intro conjI)
qed

section \<open>FNOGNO: the forward pass\<close>

lemmas forward_defs =
  forward_def latent_embedding_def embed_input_def update_ada_in_def apply_fno_blocks_def
  integrate_latent_def embed_points_def shape_at_def adain_env_def adain_model_def
  FNOGNO_init_def fnogno_defaults_def Let_def

text \<open>
  Claim C8, amended. A forward call is a function of its explicit inputs, the parameters
  and the embedding the spectral blocks hold when it starts. With \<open>ada_in\<close> given, the
  output does not depend on the embedding held before. With \<open>ada_in = None\<close> the held
  embedding is left as it is and is the one computed with: after a successful call that
  supplied \<open>ada_in\<close>, the same call without \<open>ada_in\<close> returns the same output.
\<close>

theorem forward_reads_stored_embedding:
  "fst (forward E self s1 in_p out_p f (Some a)) = fst (forward E self s2 in_p out_p f (Some a))
 \<and> snd (forward E self s in_p out_p f None) = s
 \<and> (forward E self s in_p out_p f (Some a) = (Inr out, s') \<longrightarrow>
      forward E self s' in_p out_p f None = (Inr out, s'))"
  by (auto simp: forward_def latent_embedding_def update_ada_in_def
      split: sum.splits prod.splits option.splits attr.splits)

text \<open>
  In the environment \<open>adain_env\<close>: a call with \<open>ada_in = 5\<close> returns 9 and leaves 5 in the
  blocks, and the same call without \<open>ada_in\<close> then returns 9 again.
\<close>

theorem forward_reads_stored_embedding_witness:
  "forward adain_env adain_model None 1 2 3 (Some 5) = (Inr 9, Some 5)
 \<and> forward adain_env adain_model (Some 5) 1 2 3 None = (Inr 9, Some 5)
 \<and> snd (forward adain_env adain_model (Some 7) 1 2 3 None) = Some 7"
proof -
  have e: "forward adain_env adain_model None 1 2 3 (Some 5) = (Inr 9, Some 5)"
    by (simp add: forward_defs)
  from forward_reads_stored_embedding
         [where E = adain_env and self = adain_model and s = None and in_p = 1 and out_p = 2
            and f = 3 and a = 5 and out = 9 and s' = "Some 5"]
       forward_reads_stored_embedding
         [where E = adain_env and self = adain_model and s = "Some 7" and in_p = 1 and out_p = 2
            and f = 3]
       e
  show ?thesis by simp
qed

text \<open>
  Claim C8 as stated fails: the call \<open>forward(1, 2, 3, ada_in=None)\<close> returns 4 on the new
  model and 9 after a call that supplied \<open>ada_in = 5\<close>.
\<close>

theorem forward_depends_on_earlier_call:
  "forward adain_env adain_model None 1 2 3 None = (Inr 4, None)
 \<and> forward adain_env adain_model None 1 2 3 (Some 5) = (Inr 9, Some 5)
 \<and> fst (forward adain_env adain_model
           (snd (forward adain_env adain_model None 1 2 3 (Some 5))) 1 2 3 None)
     \<noteq> fst (forward adain_env adain_model None 1 2 3 None)"
  by (simp add: forward_defs)

section \<open>Domain padding\<close>

lemma unpad_pad_axes: "unpad_axes mode ps (pad_axes mode ps g) = g"
proof (induction mode ps g rule: pad_axes.induct)
  case (3 mode p ps gs)
  have "map (unpad_axes mode ps) (map (pad_axes mode ps) gs) = gs"
    using 3 by (simp add: map_idI)
  then show ?case by (cases mode) (simp_all add: Let_def)
qed simp_all

text \<open>Padding an axis by \<open>p\<close> makes it \<open>p\<close> longer, \<open>2 * p\<close> in the symmetric mode.\<close>

lemma pad_axes_extent:
  "\<exists>padded. pad_axes mode (p # ps) (Axis gs) = Axis padded
     \<and> length padded = length gs + (case mode of Symmetric \<Rightarrow> 2 * p | OneSided \<Rightarrow> p)"
  by (cases mode) (simp_all add: Let_def)

text \<open>Padding adds zeros: half of a two-point axis is one point, after the data or on both sides.\<close>

lemma pad_example:
  "fst (pad \<lparr> dp_fraction = 1 / 2, dp_mode = OneSided, dp_recorded = None \<rparr>
          (Axis [Axis [Axis [Cell 1, Cell 2]]])) = Axis [Axis [Axis [Cell 1, Cell 2, Cell 0]]]"
  "fst (pad \<lparr> dp_fraction = 1 / 2, dp_mode = Symmetric, dp_recorded = None \<rparr>
          (Axis [Axis [Axis [Cell 1, Cell 2]]])) = Axis [Axis [Axis [Cell 0, Cell 1, Cell 2, Cell 0]]]"
  by (simp_all add: pad_def pad_amount_def Let_def)

text \<open>
  Claim C7. For every latent grid, every padding fraction and both padding modes,
  unpadding what \<^verbatim>\<open>pad\<close> returned gives back the grid: the same extent and the same
  values.
\<close>

theorem unpad_pad_roundtrip:
  "unpad (snd (pad dp x)) (fst (pad dp x)) = Inr x"
  by (simp add: pad_def unpad_def Let_def unpad_pad_axes)

section \<open>Neighbour search: the two strategies\<close>

text \<open>The tree over three points on a line, and a query that does not visit its last node.\<close>

lemma kd_build_example:
  "kd_build [[0, 0], [1, 0], [3, 0]] =
     Split 0 [0, 0] 0 Tip (Split 1 [1, 0] 1 Tip (Split 2 [3, 0] 0 Tip Tip))"
  "kd_query 1 [0, 0] (Split 0 [0, 0] 0 Tip (Split 1 [1, 0] 1 Tip (Split 2 [3, 0] 0 Tip Tip))) = [0, 1]"
  "kd_query 1 [0, 0] (Split 2 [3, 0] 0 Tip Tip) = []"
  by (simp_all add: kd_build_def enumerate_eq_zip upt_rec within_radius_def sq_dist_def)

lemma sq_dist_nonneg: "0 \<le> sq_dist u v"
  unfolding sq_dist_def by (rule sum_list_nonneg) auto

lemma sq_dist_Cons: "sq_dist (a # u) (b # v) = (a - b)\<^sup>2 + sq_dist u v"
  by (simp add: sq_dist_def)

lemma coord_le_sq_dist:
  "length x = length q \<Longrightarrow> axis < length x \<Longrightarrow> (x ! axis - q ! axis)\<^sup>2 \<le> sq_dist x q"
proof (induction x arbitrary: q axis)
  case Nil
  then show ?case by simp
next
  case (Cons a x)
  then obtain b q' where q: "q = b # q'" by (cases q) auto
  show ?case
  proof (cases axis)
    case 0
    then show ?thesis using q sq_dist_nonneg[of x q'] by (simp add: sq_dist_Cons)
  next
    case (Suc k)
    then have "(x ! k - q' ! k)\<^sup>2 \<le> sq_dist x q'" using Cons q by simp
    moreover have "0 \<le> (a - b)\<^sup>2" by simp
    ultimately have "(x ! k - q' ! k)\<^sup>2 \<le> (a - b)\<^sup>2 + sq_dist x q'"
      by (rule add_increasing[rotated])
    then show ?thesis using q Suc by (simp add: sq_dist_Cons)
  qed
qed

lemma within_radius_coord:
  assumes "within_radius r x q" and "length x = length q" and "axis < length x"
  shows "\<bar>x ! axis - q ! axis\<bar> \<le> r"
proof -
  have "(x ! axis - q ! axis)\<^sup>2 \<le> r\<^sup>2" and "0 \<le> r"
    using assms coord_le_sq_dist[of x q axis] by (auto simp: within_radius_def)
  then show ?thesis using abs_le_square_iff[of "x ! axis - q ! axis" r] by simp
qed

lemma within_radius_sqrt: "within_radius r x y \<longleftrightarrow> sqrt (sq_dist x y) \<le> r"
proof
  assume "within_radius r x y"
  then show "sqrt (sq_dist x y) \<le> r"
    by (simp add: within_radius_def real_le_lsqrt sq_dist_nonneg)
next
  assume a: "sqrt (sq_dist x y) \<le> r"
  have "0 \<le> sqrt (sq_dist x y)" using sq_dist_nonneg by simp
  with a have "0 \<le> r" by linarith
  moreover have "sq_dist x y \<le> r\<^sup>2" using a sq_dist_nonneg[of x y] by (metis sqrt_le_D)
  ultimately show "within_radius r x y" by (simp add: within_radius_def)
qed

lemma kd_entries_insert: "kd_entries (kd_insert depth j p t) = insert (j, p) (kd_entries t)"
  by (induction t arbitrary: depth) auto

lemma kd_indices_insert_set:
  "set (kd_indices (kd_insert depth j p t)) = insert j (set (kd_indices t))"
  by (induction t arbitrary: depth) auto

lemma kd_indices_insert_distinct:
  "distinct (kd_indices t) \<Longrightarrow> j \<notin> set (kd_indices t) \<Longrightarrow>
   distinct (kd_indices (kd_insert depth j p t))"
  by (induction t arbitrary: depth) (auto simp: kd_indices_insert_set)

lemma kd_invar_insert:
  "0 < d \<Longrightarrow> length p = d \<Longrightarrow> kd_invar d t \<Longrightarrow> kd_invar d (kd_insert depth j p t)"
  by (induction t arbitrary: depth) (auto simp: kd_entries_insert)

lemma kd_build_snoc:
  "kd_build (data @ [p]) = kd_insert 0 (length data) p (kd_build data)"
  by (simp add: kd_build_def enumerate_append_eq)

lemma kd_build_Nil: "kd_build [] = Tip"
  by (simp add: kd_build_def)

lemma kd_build_entries: "kd_entries (kd_build data) = set (List.enumerate 0 data)"
  by (induction data rule: rev_induct)
     (simp_all add: kd_build_Nil kd_build_snoc kd_entries_insert enumerate_append_eq)

lemma kd_build_indices: "set (kd_indices (kd_build data)) = {0..<length data}"
  by (induction data rule: rev_induct)
     (auto simp: kd_build_Nil kd_build_snoc kd_indices_insert_set)

lemma kd_build_distinct: "distinct (kd_indices (kd_build data))"
  by (induction data rule: rev_induct)
     (simp_all add: kd_build_Nil kd_build_snoc kd_indices_insert_distinct kd_build_indices)

lemma kd_build_invar:
  "0 < d \<Longrightarrow> list_all (\<lambda>p. length p = d) data \<Longrightarrow> kd_invar d (kd_build data)"
  by (induction data rule: rev_induct)
     (simp_all add: kd_build_Nil kd_build_snoc kd_invar_insert)

lemma kd_query_subset: "set (kd_query r x t) \<subseteq> set (kd_indices t)"
  by (induction t) auto

lemma kd_query_distinct: "distinct (kd_indices t) \<Longrightarrow> distinct (kd_query r x t)"
proof (induction t)
  case Tip
  then show ?case by simp
next
  case (Split j p axis lo hi)
  then show ?case using kd_query_subset[of r x lo] kd_query_subset[of r x hi]
    by (auto simp: disjoint_iff subset_iff)
qed

lemma kd_query_set:
  assumes "kd_invar d t" and "length x = d"
  shows "set (kd_query r x t) = {j. \<exists>q. (j, q) \<in> kd_entries t \<and> within_radius r x q}"
  using assms
proof (induction t)
  case Tip
  then show ?case by simp
next
  case (Split j p axis lo hi)
  have IHlo: "set (kd_query r x lo) = {j. \<exists>q. (j, q) \<in> kd_entries lo \<and> within_radius r x q}"
    using Split by simp
  have IHhi: "set (kd_query r x hi) = {j. \<exists>q. (j, q) \<in> kd_entries hi \<and> within_radius r x q}"
    using Split by simp
  have lo: "kd_query r x lo = []" if "\<not> x ! axis - r < p ! axis"
  proof -
    have "\<not> within_radius r x q" if e: "(i, q) \<in> kd_entries lo" for i q
    proof
      assume w: "within_radius r x q"
      from e Split.prems have lq: "length q = d" and lt: "q ! axis < p ! axis" and ax: "axis < d"
        by auto
      from within_radius_coord[OF w, of axis] lq ax Split.prems(2)
      have "\<bar>x ! axis - q ! axis\<bar> \<le> r" by simp
      with lt \<open>\<not> x ! axis - r < p ! axis\<close> show False by linarith
    qed
    then have "set (kd_query r x lo) = {}" using IHlo by auto
    then show ?thesis by simp
  qed
  have hi: "kd_query r x hi = []" if "\<not> p ! axis \<le> x ! axis + r"
  proof -
    have "\<not> within_radius r x q" if e: "(i, q) \<in> kd_entries hi" for i q
    proof
      assume w: "within_radius r x q"
      from e Split.prems have lq: "length q = d" and ge: "p ! axis \<le> q ! axis" and ax: "axis < d"
        by auto
      from within_radius_coord[OF w, of axis] lq ax Split.prems(2)
      have "\<bar>x ! axis - q ! axis\<bar> \<le> r" by simp
      with ge \<open>\<not> p ! axis \<le> x ! axis + r\<close> show False by linarith
    qed
    then have "set (kd_query r x hi) = {}" using IHhi by auto
    then show ?thesis by simp
  qed
  show ?case
    using lo hi IHlo IHhi by (auto simp del: kd_invar.simps)
qed


lemma neighbors_of_set:
  "set (neighbors_of r data x) = {j. j < length data \<and> within_radius r x (data ! j)}"
  by (auto simp: neighbors_of_def)

lemma neighbors_of_sorted: "sorted (neighbors_of r data x)" "distinct (neighbors_of r data x)"
  by (simp_all add: neighbors_of_def sorted_wrt_filter)

lemma kd_query_build:
  assumes "0 < d" and "list_all (\<lambda>p. length p = d) data" and "length x = d"
  shows "sort (kd_query r x (kd_build data)) = neighbors_of r data x"
proof -
  let ?t = "kd_build data"
  have inv: "kd_invar d ?t" using assms(1,2) by (rule kd_build_invar)
  have "set (kd_query r x ?t) = {j. \<exists>q. (j, q) \<in> set (List.enumerate 0 data) \<and> within_radius r x q}"
    using kd_query_set[OF inv assms(3)] by (simp add: kd_build_entries)
  also have "\<dots> = set (neighbors_of r data x)"
    by (auto simp: neighbors_of_set in_set_enumerate_eq)
  finally have set: "set (sort (kd_query r x ?t)) = set (neighbors_of r data x)" by simp
  have "distinct (sort (kd_query r x ?t))"
    using kd_query_distinct[OF kd_build_distinct] by simp
  then show ?thesis
    using set neighbors_of_sorted[of r data x]
    by (intro sorted_distinct_set_unique) simp_all
qed

lemma row_splits_length: "length (row_splits_from s ns) = Suc (length ns)"
  by (induction ns arbitrary: s) simp_all

lemma row_splits_first: "row_splits_from s ns ! 0 = s"
  by (cases ns) simp_all

lemma row_splits_nth:
  "i \<le> length ns \<Longrightarrow> row_splits_from s ns ! i = s + sum_list (take i ns)"
proof (induction ns arbitrary: s i)
  case Nil
  then show ?case by simp
next
  case (Cons n ns)
  then show ?case by (cases i) simp_all
qed

lemma row_splits_nonempty: "row_splits_from s ns \<noteq> []"
  by (cases ns) simp_all

lemma row_splits_last: "last (row_splits_from s ns) = s + sum_list ns"
  by (induction ns arbitrary: s) (simp_all add: row_splits_nonempty)

lemma row_splits_ge: "t \<in> set (row_splits_from s ns) \<Longrightarrow> s \<le> t"
  by (induction ns arbitrary: s) fastforce+

lemma row_splits_sorted: "sorted (row_splits_from s ns)"
  by (induction ns arbitrary: s) (auto dest: row_splits_ge)

lemma length_concat_take: "length (concat (take i xss)) = sum_list (take i (map length xss))"
  by (simp add: length_concat take_map)

lemma slice_concat_block:
  assumes "i < length xss"
  shows "slice (concat xss) (sum_list (take i (map length xss)))
           (sum_list (take (Suc i) (map length xss))) = xss ! i"
proof -
  have split: "concat xss = concat (take i xss) @ xss ! i @ concat (drop (Suc i) xss)"
    using assms by (metis append_take_drop_id concat.simps(2) concat_append Cons_nth_drop_Suc)
  have a: "sum_list (take i (map length xss)) = length (concat (take i xss))"
    by (simp add: length_concat_take)
  have b: "sum_list (take (Suc i) (map length xss)) = length (concat (take i xss)) + length (xss ! i)"
    using assms by (simp add: take_Suc_conv_app_nth take_map[symmetric] length_concat)
  show ?thesis unfolding a b slice_def by (subst split) simp
qed

lemma csr_block:
  assumes "i < length queries"
  shows "slice (concat (map f queries))
           (row_splits_from 0 (map (\<lambda>x. length (f x)) queries) ! i)
           (row_splits_from 0 (map (\<lambda>x. length (f x)) queries) ! Suc i) = f (queries ! i)"
proof -
  have m: "map (\<lambda>x. length (f x)) queries = map length (map f queries)" by simp
  show ?thesis
    using slice_concat_block[of i "map f queries"] assms
    by (simp add: row_splits_nth m del: map_map)
qed


lemma brute_force_block:
  "i < length queries \<Longrightarrow>
   neighbors_block (brute_force_search s data queries r) i = neighbors_of r data (queries ! i)"
  by (simp add: neighbors_block_def brute_force_search_def csr_block)

lemma indexed_eq_brute_force:
  assumes "0 < d" and "list_all (\<lambda>p. length p = d) data" and "list_all (\<lambda>p. length p = d) queries"
  shows "indexed_search s1 data queries r = brute_force_search s2 data queries r"
proof -
  have eq: "sort (kd_query r x (kd_build data)) = neighbors_of r data x"
    if "x \<in> set queries" for x
    using that assms kd_query_build[of d data x r] by (simp add: list_all_iff)
  have len: "length (kd_query r x (kd_build data)) = length (neighbors_of r data x)"
    if "x \<in> set queries" for x
    using eq[OF that] by (metis length_sort)
  show ?thesis
    using eq len by (simp add: indexed_search_def brute_force_search_def Let_def cong: map_cong)
qed

text \<open>
  Claim C1. For point sets of one dimension \<open>d > 0\<close> and every radius, the indexed search
  and the brute-force search return the same CSR graph, hence the same edges. In that
  graph there is one row boundary more than there are queries, the boundaries are
  non-decreasing, start at 0 and end at the number of edges, the edge list is the
  concatenation of the queries' blocks, and data point \<open>j\<close> is in the block of query \<open>i\<close>
  exactly when the Euclidean distance of \<open>X_i\<close> and \<open>Y_j\<close> is at most \<open>r\<close>.
\<close>

theorem neighbor_search_strategies_agree:
  assumes "0 < d" and "list_all (\<lambda>p. length p = d) data" and "list_all (\<lambda>p. length p = d) queries"
  shows "indexed_search s1 data queries r = brute_force_search s2 data queries r
     \<and> (let g = brute_force_search s2 data queries r
        in length (neighbors_row_splits g) = Suc (length queries)
         \<and> sorted (neighbors_row_splits g)
         \<and> neighbors_row_splits g ! 0 = 0
         \<and> last (neighbors_row_splits g) = length (neighbors_index g)
         \<and> concat (map (neighbors_block g) [0..<length queries]) = neighbors_index g
         \<and> (\<forall>i j. i < length queries \<longrightarrow>
               sorted (neighbors_block g i)
             \<and> (j \<in> set (neighbors_block g i) \<longleftrightarrow>
                  j < length data \<and> sqrt (sq_dist (queries ! i) (data ! j)) \<le> r)))"
proof -
  let ?g = "brute_force_search s2 data queries r"
  have 1: "length (neighbors_row_splits ?g) = Suc (length queries)"
    by (simp add: brute_force_search_def row_splits_length)
  have 2: "sorted (neighbors_row_splits ?g)"
    by (simp add: brute_force_search_def row_splits_sorted)
  have 3: "neighbors_row_splits ?g ! 0 = 0"
    by (simp add: brute_force_search_def row_splits_first)
  have 4: "last (neighbors_row_splits ?g) = length (neighbors_index ?g)"
    by (simp add: brute_force_search_def row_splits_last length_concat comp_def)
  have "map (neighbors_block ?g) [0..<length queries] = map (neighbors_of r data) queries"
    by (rule nth_equalityI) (simp_all add: brute_force_block)
  then have 5: "concat (map (neighbors_block ?g) [0..<length queries]) = neighbors_index ?g"
    by (simp add: brute_force_search_def)
  have 6: "sorted (neighbors_block ?g i) \<and>
           (j \<in> set (neighbors_block ?g i) \<longleftrightarrow>
              j < length data \<and> sqrt (sq_dist (queries ! i) (data ! j)) \<le> r)"
    if "i < length queries" for i j
    using that
    by (simp add: brute_force_block neighbors_of_sorted neighbors_of_set within_radius_sqrt)
  show ?thesis
    using indexed_eq_brute_force[OF assms] 1 2 3 4 5 6 by (simp add: Let_def)
qed

text \<open>
  Three data points and two queries in the plane, radius 1: the point at distance exactly
  1 is a neighbour, the second query has none.
\<close>

theorem neighbor_search_strategies_agree_witness:
  "indexed_search \<lparr> use_open3d = True \<rparr> [[0, 0], [1, 0], [3, 0]] [[0, 0], [5, 5]] 1 =
     \<lparr> neighbors_index = [0, 1], neighbors_row_splits = [0, 2, 2] \<rparr>
 \<and> brute_force_search \<lparr> use_open3d = False \<rparr> [[0, 0], [1, 0], [3, 0]] [[0, 0], [5, 5]] 1 =
     \<lparr> neighbors_index = [0, 1], neighbors_row_splits = [0, 2, 2] \<rparr>
 \<and> sqrt (sq_dist [0, 0] [1, 0]) \<le> 1
 \<and> \<not> sqrt (sq_dist [0, 0] [3, 0]) \<le> 1"
proof -
  let ?data = "[[0, 0], [1, 0], [3, 0]] :: real list list"
  let ?queries = "[[0, 0], [5, 5]] :: real list list"
  let ?g = "brute_force_search \<lparr> use_open3d = False \<rparr> ?data ?queries 1"
  have bf: "?g = \<lparr> neighbors_index = [0, 1], neighbors_row_splits = [0, 2, 2] \<rparr>"
    by (simp add: brute_force_search_def neighbors_of_def within_radius_def sq_dist_def upt_rec)
  have h: "(0::nat) < 2" "list_all (\<lambda>p. length p = 2) ?data" "list_all (\<lambda>p. length p = 2) ?queries"
    by simp_all
  note t = neighbor_search_strategies_agree
             [OF h, of "\<lparr> use_open3d = True \<rparr>" 1 "\<lparr> use_open3d = False \<rparr>"]
  have ix: "indexed_search \<lparr> use_open3d = True \<rparr> ?data ?queries 1 = ?g" using t by simp
  have blk: "neighbors_block ?g 0 = [0, 1]"
    by (simp add: bf neighbors_block_def slice_def)
  from t have "\<And>j. j \<in> set (neighbors_block ?g 0) \<longleftrightarrow>
                  j < length ?data \<and> sqrt (sq_dist (?queries ! 0) (?data ! j)) \<le> 1"
    by (simp add: Let_def)
  from this[of 1] this[of 2] have "sqrt (sq_dist [0, 0] [1, 0]) \<le> 1"
     "\<not> sqrt (sq_dist [0, 0] [3, 0]) \<le> 1"
    by (simp_all add: blk)
  then show ?thesis using ix bf by simp
qed

section \<open>Properties of the segmented reduction\<close>

lemma vsum_length: "list_all (\<lambda>v. length v = d) vs \<Longrightarrow> length (vsum d vs) = d"
  by (induction vs) (simp_all add: vsum_def vadd_def)

lemma vsum_nth:
  "list_all (\<lambda>v. length v = d) vs \<Longrightarrow> c < d \<Longrightarrow> vsum d vs ! c = (\<Sum>v\<leftarrow>vs. v ! c)"
proof (induction vs)
  case Nil
  then show ?case by (simp add: vsum_def)
next
  case (Cons v vs)
  have len: "length (vsum d vs) = d" using Cons.prems by (simp add: vsum_length)
  have "vsum d (v # vs) = vadd v (vsum d vs)" by (simp add: vsum_def)
  then show ?case using Cons len by (simp add: vadd_def)
qed

lemma slice_update:
  "slice (xs[e := r]) a b = (if a \<le> e \<and> e < b then (slice xs a b)[e - a := r] else slice xs a b)"
proof (cases "a \<le> e")
  case True
  then have d: "drop a (xs[e := r]) = (drop a xs)[e - a := r]"
    by (simp add: drop_update_swap)
  show ?thesis
  proof (cases "e < b")
    case True
    with \<open>a \<le> e\<close> d show ?thesis by (simp add: slice_def take_update_swap)
  next
    case False
    with \<open>a \<le> e\<close> have "b - a \<le> e - a" by arith
    with False d show ?thesis by (simp add: slice_def)
  qed
next
  case False
  then show ?thesis by (simp add: slice_def)
qed

lemma sum_list_update_real:
  fixes g :: "'a \<Rightarrow> real"
  shows "k < length xs \<Longrightarrow> (\<Sum>x\<leftarrow>xs[k := r]. g x) = (\<Sum>x\<leftarrow>xs. g x) - g (xs ! k) + g r"
  by (induction xs arbitrary: k) (auto split: nat.splits)

lemma slice_length: "length (slice xs a b) = min (b - a) (length xs - a)"
  by (simp add: slice_def)

lemma slice_nth: "k < length (slice xs a b) \<Longrightarrow> slice xs a b ! k = xs ! (a + k)"
proof -
  assume "k < length (slice xs a b)"
  then have "k < b - a \<and> a \<le> length xs" by (simp add: slice_def) arith
  then show ?thesis by (simp add: slice_def)
qed

lemma slice_all: "list_all P xs \<Longrightarrow> list_all P (slice xs a b)"
  unfolding slice_def list_all_iff by (meson in_set_dropD in_set_takeD)

text \<open>Component \<open>c'\<close> of the sum of a block whose \<open>k\<close>-th vector has component \<open>c\<close> replaced by \<open>t\<close>.\<close>
lemma block_sum_component:
  assumes rows: "list_all (\<lambda>v. length v = d) vs" and k: "k < length vs" and c: "c < d" and c': "c' < d"
  shows "vsum d (vs[k := (vs ! k)[c := t]]) ! c' =
         (if c' = c then t + ((\<Sum>v\<leftarrow>vs. v ! c) - vs ! k ! c) else (\<Sum>v\<leftarrow>vs. v ! c'))"
proof -
  have lk: "length (vs ! k) = d" using rows k by (simp add: list_all_length)
  have rows': "list_all (\<lambda>v. length v = d) (vs[k := (vs ! k)[c := t]])"
    using rows k lk by (auto simp: list_all_length nth_list_update)
  have "vsum d (vs[k := (vs ! k)[c := t]]) ! c' = (\<Sum>v\<leftarrow>vs[k := (vs ! k)[c := t]]. v ! c')"
    using rows' c' by (rule vsum_nth)
  also have "\<dots> = (\<Sum>v\<leftarrow>vs. v ! c') - vs ! k ! c' + (vs ! k)[c := t] ! c'"
    using k by (rule sum_list_update_real)
  finally show ?thesis using lk c c' by (auto simp: nth_list_update)
qed


lemma segment_nth:
  "i < length rb - 1 \<Longrightarrow>
   segment_csr d values rb op ! i = reduce_block d op (slice values (rb ! i) (rb ! Suc i))"
  by (simp add: segment_csr_def)

lemma segment_entry:
  assumes rows: "list_all (\<lambda>v. length v = d) values" and i: "i < length rb - 1"
    and e: "e < length values" and c: "c < d" and c': "c' < d"
    and inr: "rb ! i \<le> e" "e < rb ! Suc i"
  shows "segment_csr d (set_entry values e c t) rb ReduceSum ! i ! c' =
         (if c' = c then t + ((\<Sum>v\<leftarrow>slice values (rb ! i) (rb ! Suc i). v ! c) - values ! e ! c)
          else (\<Sum>v\<leftarrow>slice values (rb ! i) (rb ! Suc i). v ! c'))"
proof -
  let ?S = "slice values (rb ! i) (rb ! Suc i)"
  have k: "e - rb ! i < length ?S" using inr e by (simp add: slice_length) arith
  have nth: "?S ! (e - rb ! i) = values ! e" using slice_nth[OF k] inr by simp
  have "slice (set_entry values e c t) (rb ! i) (rb ! Suc i) = ?S[e - rb ! i := (?S ! (e - rb ! i))[c := t]]"
    using inr nth by (simp add: set_entry_def slice_update)
  moreover have "list_all (\<lambda>v. length v = d) ?S" using rows by (rule slice_all)
  ultimately show ?thesis
    using block_sum_component[of d ?S "e - rb ! i" c c' t] k c c' i nth
    by (simp add: segment_nth reduce_block_def)
qed

lemma set_entry_rows:
  "list_all (\<lambda>v. length v = d) values \<Longrightarrow> list_all (\<lambda>v. length v = d) (set_entry values e c t)"
proof (cases "e < length values")
  case True
  assume "list_all (\<lambda>v. length v = d) values"
  with True show ?thesis
    by (auto simp: set_entry_def list_all_length nth_list_update)
next
  case False
  assume "list_all (\<lambda>v. length v = d) values"
  with False show ?thesis by (simp add: set_entry_def list_update_beyond)
qed

lemma slice_set_entry_outside:
  "\<not> (a \<le> e \<and> e < b) \<Longrightarrow> slice (set_entry values e c t) a b = slice values a b"
  by (auto simp: set_entry_def slice_update)

lemma slice_set_entry_length:
  "length (slice (set_entry values e c t) a b) = length (slice values a b)"
  by (simp add: set_entry_def slice_length)

lemma mean_nth:
  assumes "list_all (\<lambda>v. length v = d) vs" and "c < d" and "vs \<noteq> []"
  shows "reduce_block d ReduceMean vs ! c = reduce_block d ReduceSum vs ! c / real (length vs)"
  using assms by (simp add: reduce_block_def vsum_length)

lemma sum_nth:
  assumes "list_all (\<lambda>v. length v = d) vs" and "c < d"
  shows "reduce_block d ReduceSum vs ! c = (\<Sum>v\<leftarrow>vs. v ! c)"
  using assms by (simp add: reduce_block_def vsum_nth)

lemma empty_block: "reduce_block d op [] = replicate d 0"
  by (cases op) (simp_all add: reduce_block_def vsum_def)

lemma deriv_sum_entry:
  assumes rows: "list_all (\<lambda>v. length v = d) values" and i: "i < length rb - 1"
    and e: "e < length values" and c: "c < d" and c': "c' < d"
  shows "DERIV (\<lambda>t. segment_csr d (set_entry values e c t) rb ReduceSum ! i ! c') t0
           :> (if rb ! i \<le> e \<and> e < rb ! Suc i \<and> c' = c then 1 else 0)"
proof (cases "rb ! i \<le> e \<and> e < rb ! Suc i")
  case True
  then have inr: "rb ! i \<le> e" "e < rb ! Suc i" by simp_all
  note eq = segment_entry[OF rows i e c c' inr]
  show ?thesis
  proof (cases "c' = c")
    case True
    with eq inr show ?thesis by (auto intro!: derivative_eq_intros)
  next
    case False
    with eq inr show ?thesis by simp
  qed
next
  case False
  then have "\<And>t. segment_csr d (set_entry values e c t) rb ReduceSum ! i ! c' =
               segment_csr d values rb ReduceSum ! i ! c'"
    using i by (simp add: segment_nth slice_set_entry_outside)
  with False show ?thesis by auto
qed

lemma deriv_mean_entry:
  assumes rows: "list_all (\<lambda>v. length v = d) values" and i: "i < length rb - 1"
    and wf: "rb ! Suc i \<le> length values"
    and e: "e < length values" and c: "c < d" and c': "c' < d"
  shows "DERIV (\<lambda>t. segment_csr d (set_entry values e c t) rb ReduceMean ! i ! c') t0
           :> (if rb ! i \<le> e \<and> e < rb ! Suc i \<and> c' = c then 1 / real (rb ! Suc i - rb ! i) else 0)"
proof (cases "rb ! i \<le> e \<and> e < rb ! Suc i")
  case True
  then have inr: "rb ! i \<le> e" "e < rb ! Suc i" by simp_all
  let ?n = "rb ! Suc i - rb ! i"
  have len: "\<And>t. length (slice (set_entry values e c t) (rb ! i) (rb ! Suc i)) = ?n"
    using wf by (auto simp: slice_length set_entry_def)
  have pos: "0 < ?n" using inr by arith
  have ne: "\<And>t. slice (set_entry values e c t) (rb ! i) (rb ! Suc i) \<noteq> []"
    using len pos by (metis length_0_conv less_numeral_extra(3))
  have mean: "\<And>t. segment_csr d (set_entry values e c t) rb ReduceMean ! i ! c' =
                 segment_csr d (set_entry values e c t) rb ReduceSum ! i ! c' / real ?n"
    using i c' len ne
    by (simp add: segment_nth mean_nth[OF slice_all[OF set_entry_rows[OF rows]]])
  have D: "DERIV (\<lambda>t. segment_csr d (set_entry values e c t) rb ReduceSum ! i ! c' / real ?n) t0
             :> (if rb ! i \<le> e \<and> e < rb ! Suc i \<and> c' = c then 1 else 0) / real ?n"
    by (rule DERIV_cdivide[OF deriv_sum_entry[OF rows i e c c']])
  from D have "DERIV (\<lambda>t. segment_csr d (set_entry values e c t) rb ReduceMean ! i ! c') t0
             :> (if rb ! i \<le> e \<and> e < rb ! Suc i \<and> c' = c then 1 else 0) / real ?n"
    by (simp only: mean)
  moreover have "(if rb ! i \<le> e \<and> e < rb ! Suc i \<and> c' = c then 1 else 0) / real ?n =
                 (if rb ! i \<le> e \<and> e < rb ! Suc i \<and> c' = c then 1 / real ?n else 0)"
    by simp
  ultimately show ?thesis by (simp only:)
next
  case False
  then have "\<And>t. segment_csr d (set_entry values e c t) rb ReduceMean ! i ! c' =
               segment_csr d values rb ReduceMean ! i ! c'"
    using i by (simp add: segment_nth slice_set_entry_outside)
  with False show ?thesis by auto
qed


text \<open>
  Claim C2. For per-edge values of width \<open>d\<close> and row boundaries, the segmented
  reduction has one output per pair of consecutive boundaries (#queries = number of
  boundaries - 1); output \<open>i\<close> is the operation over \<open>values[rb[i]:rb[i+1]]\<close>, component by
  component the sum of the range (divided by its length for \<open>mean\<close>); an empty range gives
  the zero vector for both operations; and the partial derivative of output \<open>i\<close>,
  component \<open>c'\<close>, in \<open>values[e][c]\<close> is 1 (sum) or 1/count (mean) when \<open>e\<close> lies in the range
  and \<open>c' = c\<close>, and 0 otherwise.
\<close>

theorem segment_csr_contract:
  assumes rows: "list_all (\<lambda>v. length v = d) values"
    and i: "i < length row_boundaries - 1"
    and wf: "row_boundaries ! Suc i \<le> length values"
    and e: "e < length values" and c: "c < d" and c': "c' < d"
  shows "length (segment_csr d values row_boundaries op) = length row_boundaries - 1
     \<and> segment_csr d values row_boundaries op ! i =
         reduce_block d op (slice values (row_boundaries ! i) (row_boundaries ! Suc i))
     \<and> segment_csr d values row_boundaries ReduceSum ! i ! c =
         (\<Sum>v\<leftarrow>slice values (row_boundaries ! i) (row_boundaries ! Suc i). v ! c)
     \<and> (if row_boundaries ! Suc i \<le> row_boundaries ! i
         then segment_csr d values row_boundaries op ! i = replicate d 0
         else segment_csr d values row_boundaries ReduceMean ! i ! c =
                (\<Sum>v\<leftarrow>slice values (row_boundaries ! i) (row_boundaries ! Suc i). v ! c)
                / real (row_boundaries ! Suc i - row_boundaries ! i))
     \<and> DERIV (\<lambda>t. segment_csr d (set_entry values e c t) row_boundaries ReduceSum ! i ! c') t0
           :> (if row_boundaries ! i \<le> e \<and> e < row_boundaries ! Suc i \<and> c' = c then 1 else 0)
     \<and> DERIV (\<lambda>t. segment_csr d (set_entry values e c t) row_boundaries ReduceMean ! i ! c') t0
           :> (if row_boundaries ! i \<le> e \<and> e < row_boundaries ! Suc i \<and> c' = c
               then 1 / real (row_boundaries ! Suc i - row_boundaries ! i) else 0)"
proof -
  let ?a = "row_boundaries ! i" and ?b = "row_boundaries ! Suc i"
  let ?S = "slice values ?a ?b"
  have S: "list_all (\<lambda>v. length v = d) ?S" using rows by (rule slice_all)
  have 1: "length (segment_csr d values row_boundaries op) = length row_boundaries - 1"
    by (simp add: segment_csr_def)
  have 2: "segment_csr d values row_boundaries op ! i = reduce_block d op ?S"
    using i by (rule segment_nth)
  have 3: "segment_csr d values row_boundaries ReduceSum ! i ! c = (\<Sum>v\<leftarrow>?S. v ! c)"
    using i by (simp add: segment_nth sum_nth[OF S c])
  have 4: "segment_csr d values row_boundaries op ! i = replicate d 0" if "?b \<le> ?a"
    using that i by (simp add: segment_nth slice_def empty_block)
  have 5: "segment_csr d values row_boundaries ReduceMean ! i ! c = (\<Sum>v\<leftarrow>?S. v ! c) / real (?b - ?a)"
    if "\<not> ?b \<le> ?a"
  proof -
    have len: "length ?S = ?b - ?a" using wf by (auto simp: slice_length)
    with that have "?S \<noteq> []" by auto
    then show ?thesis using i len by (simp add: segment_nth mean_nth[OF S c] sum_nth[OF S c])
  qed
  note 6 = deriv_sum_entry[OF rows i e c c', of t0]
  note 7 = deriv_mean_entry[OF rows i wf e c c', of t0]
  show ?thesis
  proof (cases "?b \<le> ?a")
    case True
    with 1 2 3 4[OF True] 6 7 show ?thesis by (simp only: if_True simp_thms)
  next
    case False
    with 1 2 3 5[OF False] 6 7 show ?thesis by (simp only: if_False simp_thms)
  qed
qed

text \<open>
  The contract at a concrete input: three edges, row boundaries \<open>[0, 2, 2, 3]\<close> (a
  two-element range, an empty one and a singleton).
\<close>

theorem segment_csr_contract_witness:
  "segment_csr 2 [[1, 2], [3, 4], [5, 6]] [0, 2, 2, 3] ReduceSum = [[4, 6], [0, 0], [5, 6]]
 \<and> segment_csr 2 [[1, 2], [3, 4], [5, 6]] [0, 2, 2, 3] ReduceMean = [[2, 3], [0, 0], [5, 6]]
 \<and> DERIV (\<lambda>t. segment_csr 2 (set_entry [[1, 2], [3, 4], [5, 6]] 1 0 t) [0, 2, 2, 3] ReduceSum ! 0 ! 0) 7 :> 1
 \<and> DERIV (\<lambda>t. segment_csr 2 (set_entry [[1, 2], [3, 4], [5, 6]] 1 0 t) [0, 2, 2, 3] ReduceMean ! 0 ! 0) 7 :> 1 / 2
 \<and> DERIV (\<lambda>t. segment_csr 2 (set_entry [[1, 2], [3, 4], [5, 6]] 2 0 t) [0, 2, 2, 3] ReduceSum ! 0 ! 0) 7 :> 0
 \<and> DERIV (\<lambda>t. segment_csr 2 (set_entry [[1, 2], [3, 4], [5, 6]] 1 0 t) [0, 2, 2, 3] ReduceMean ! 0 ! 1) 7 :> 0"
proof -
  have ev: "segment_csr 2 [[1, 2], [3, 4], [5, 6]] [0, 2, 2, 3] ReduceSum = [[4, 6], [0, 0], [5, 6]]"
           "segment_csr 2 [[1, 2], [3, 4], [5, 6]] [0, 2, 2, 3] ReduceMean = [[2, 3], [0, 0], [5, 6]]"
    by (simp_all add: segment_csr_def slice_def reduce_block_def vsum_def vadd_def upt_rec
          eval_nat_numeral)
  have a: "DERIV (\<lambda>t. segment_csr 2 (set_entry [[1, 2], [3, 4], [5, 6]] 1 0 t) [0, 2, 2, 3] ReduceSum ! 0 ! 0) 7 :> 1"
          "DERIV (\<lambda>t. segment_csr 2 (set_entry [[1, 2], [3, 4], [5, 6]] 1 0 t) [0, 2, 2, 3] ReduceMean ! 0 ! 0) 7 :> 1 / 2"
    using segment_csr_contract[of 2 "[[1, 2], [3, 4], [5, 6]]" 0 "[0, 2, 2, 3]" 1 0 0 ReduceSum 7]
    by simp_all
  have b: "DERIV (\<lambda>t. segment_csr 2 (set_entry [[1, 2], [3, 4], [5, 6]] 2 0 t) [0, 2, 2, 3] ReduceSum ! 0 ! 0) 7 :> 0"
    using segment_csr_contract[of 2 "[[1, 2], [3, 4], [5, 6]]" 0 "[0, 2, 2, 3]" 2 0 0 ReduceSum 7]
    by simp
  have c: "DERIV (\<lambda>t. segment_csr 2 (set_entry [[1, 2], [3, 4], [5, 6]] 1 0 t) [0, 2, 2, 3] ReduceMean ! 0 ! 1) 7 :> 0"
    using segment_csr_contract[of 2 "[[1, 2], [3, 4], [5, 6]]" 0 "[0, 2, 2, 3]" 1 0 1 ReduceSum 7]
    by simp
  show ?thesis using ev a b c by (simp only:) 
qed

end
